theory Spec2Isabelle
  imports Complex_Main
begin

section \<open>Intervals and the keep-interval computation of the Remsi processor\<close>

text \<open>
  Times are Python floats in the source.  The planner only compares and copies them, so
  they are modelled as reals: on finite floats the order is the order of the reals.
  An interval is the tuple \<open>(start, end)\<close> of the source.
\<close>

type_synonym interval = "real \<times> real"

text \<open>
  \<open>RemsiProcessor.create_filter_complex\<close>, the loop over \<open>silence_segments\<close>:
  \<^verbatim>\<open>
    non_silent_segments = []
    last_end = 0.0
    for start, end in silence_segments:
        if start > last_end:
            non_silent_segments.append((last_end, start))
        last_end = end
  \<close>
  The state of the loop is the list built so far and \<open>last_end\<close>.
\<close>

fun scan_silence :: "interval list \<Rightarrow> real \<Rightarrow> interval list \<Rightarrow> interval list \<times> real" where
  "scan_silence [] last_end acc = (acc, last_end)"
| "scan_silence ((start, end') # rest) last_end acc =
     scan_silence rest end' (if start > last_end then acc @ [(last_end, start)] else acc)"

text \<open>
  The loop followed by the final segment:
  \<^verbatim>\<open>
    if last_end < video_duration:
        non_silent_segments.append((last_end, video_duration))
  \<close>
  The value is the list \<open>non_silent_segments\<close> at that point of the source.
\<close>

definition non_silent_segments :: "interval list \<Rightarrow> real \<Rightarrow> interval list" where
  "non_silent_segments silence_segments video_duration =
     (case scan_silence silence_segments 0 [] of
        (segs, last_end) \<Rightarrow>
          if last_end < video_duration then segs @ [(last_end, video_duration)] else segs)"

subsection \<open>The planner as the specification words it\<close>

text \<open>
  The specification writes the basic-tier plan as
  \<open>keep = complement(merge(silenceIntervals), [0, duration])\<close>.  The two definitions below
  follow these words, not the source: \<open>merge_spec\<close> sorts by start and coalesces
  intervals that overlap or touch; \<open>complement_spec\<close> walks the merged list, emits the gaps,
  clamps each gap to \<open>[0, duration]\<close> and discards a gap whose start is not below its end.
\<close>

fun coalesce :: "interval list \<Rightarrow> interval list" where
  "coalesce [] = []"
| "coalesce [x] = [x]"
| "coalesce ((s1, e1) # (s2, e2) # rest) =
     (if s2 \<le> e1 then coalesce ((s1, max e1 e2) # rest)
      else (s1, e1) # coalesce ((s2, e2) # rest))"

definition merge_spec :: "interval list \<Rightarrow> interval list" where
  "merge_spec xs = coalesce (sort_key fst xs)"

definition clamp_gap :: "real \<Rightarrow> real \<Rightarrow> real \<Rightarrow> interval list" where
  "clamp_gap a b duration =
     (if max 0 a < min duration b then [(max 0 a, min duration b)] else [])"

fun gaps_spec :: "real \<Rightarrow> interval list \<Rightarrow> real \<Rightarrow> interval list" where
  "gaps_spec cursor [] duration = clamp_gap cursor duration duration"
| "gaps_spec cursor ((s, e) # rest) duration =
     clamp_gap cursor s duration @ gaps_spec (max cursor e) rest duration"

definition complement_spec :: "interval list \<Rightarrow> real \<Rightarrow> interval list" where
  "complement_spec xs duration = gaps_spec 0 xs duration"

text \<open>
  The shape of detector output the source relies on: every interval starts at or after 0,
  ends after it starts and starts no later than the duration, and each interval ends no
  later than the next one starts.
\<close>

definition silence_ok :: "interval list \<Rightarrow> real \<Rightarrow> bool" where
  "silence_ok silence duration \<longleftrightarrow>
     list_all (\<lambda>(s, e). 0 \<le> s \<and> s < e \<and> s \<le> duration) silence \<and>
     sorted_wrt (\<lambda>a b. snd a \<le> fst b) silence"

text \<open>
  The contract of a keep-interval list: starts strictly ascending, no two intervals
  overlapping, every interval non-empty and inside \<open>[0, duration]\<close>.
\<close>

definition keep_ok :: "interval list \<Rightarrow> real \<Rightarrow> bool" where
  "keep_ok keep duration \<longleftrightarrow>
     sorted_wrt (\<lambda>a b. fst a < fst b \<and> snd a \<le> fst b) keep \<and>
     list_all (\<lambda>(s, e). 0 \<le> s \<and> s < e \<and> e \<le> duration) keep"

text \<open>
  Proof devices for the loop: \<open>gaps_from\<close> is the loop and final segment without the
  accumulator, \<open>chain\<close> is \<open>silence_ok\<close> read from a cursor onwards.
\<close>

fun gaps_from :: "real \<Rightarrow> interval list \<Rightarrow> real \<Rightarrow> interval list" where
  "gaps_from last_end [] d = (if last_end < d then [(last_end, d)] else [])"
| "gaps_from last_end ((s, e) # rest) d =
     (if s > last_end then [(last_end, s)] else []) @ gaps_from e rest d"

fun chain :: "real \<Rightarrow> interval list \<Rightarrow> real \<Rightarrow> bool" where
  "chain c [] d = True"
| "chain c ((s, e) # rest) d = (c \<le> s \<and> s < e \<and> s \<le> d \<and> chain e rest d)"

section \<open>Filter-graph construction\<close>

text \<open>
  Python's \<open>str\<close> of a non-negative \<open>int\<close> (the index \<open>i\<close> and \<open>len(...)\<close> inside the
  f-strings), \<open>sep.join(xs)\<close>, and \<open>s.split(c)\<close> for a separator of one character.
\<close>

fun show_nat :: "nat \<Rightarrow> string" where
  "show_nat n =
     (if n < 10 then [''0123456789'' ! n]
      else show_nat (n div 10) @ [''0123456789'' ! (n mod 10)])"

declare show_nat.simps [simp del]

fun str_join :: "string \<Rightarrow> string list \<Rightarrow> string" where
  "str_join sep [] = []"
| "str_join sep [x] = x"
| "str_join sep (x # y # ys) = x @ sep @ str_join sep (y # ys)"

fun split_char :: "char \<Rightarrow> string \<Rightarrow> string list" where
  "split_char c [] = [[]]"
| "split_char c (x # xs) =
     (if x = c then [] # split_char c xs
      else (case split_char c xs of [] \<Rightarrow> [[x]] | l # ls \<Rightarrow> (x # l) # ls))"

text \<open>
  The formatting of a float inside an f-string (\<open>f"{start}"\<close>, Python's \<open>repr\<close>) is a
  builtin of the language; the graph builders take it as the parameter \<open>fmt\<close>.

  The loop shared by the three builders:
  \<^verbatim>\<open>
    for i, (start, end) in enumerate(segments):
        filters.append(f"[0:v]trim=start={start}:end={end},setpts=PTS-STARTPTS[v{i}]")
        filters.append(f"[0:a]atrim=start={start}:end={end},asetpts=PTS-STARTPTS[a{i}]")
  \<close>
\<close>

fun trim_filters :: "(real \<Rightarrow> string) \<Rightarrow> nat \<Rightarrow> interval list \<Rightarrow> string list" where
  "trim_filters fmt i [] = []"
| "trim_filters fmt i ((start, end') # rest) =
     (''[0:v]trim=start='' @ fmt start @ '':end='' @ fmt end' @
        '',setpts=PTS-STARTPTS[v'' @ show_nat i @ '']'') #
     (''[0:a]atrim=start='' @ fmt start @ '':end='' @ fmt end' @
        '',asetpts=PTS-STARTPTS[a'' @ show_nat i @ '']'') #
     trim_filters fmt (Suc i) rest"

text \<open>\<^verbatim>\<open>"".join([f"[v{i}]" for i in range(n)])\<close>, with the tag \<open>v\<close> or \<open>a\<close>.\<close>

definition stream_inputs :: "string \<Rightarrow> nat \<Rightarrow> string" where
  "stream_inputs tag n = concat (map (\<lambda>i. ''['' @ tag @ show_nat i @ '']'') [0..<n])"

text \<open>
  The list \<open>filters\<close> when the builder joins it: the trim nodes, the two concatenations
  and the final node.
\<close>

definition segment_filters :: "(real \<Rightarrow> string) \<Rightarrow> interval list \<Rightarrow> string list" where
  "segment_filters fmt segments =
     trim_filters fmt 0 segments @
     [stream_inputs ''v'' (length segments) @ ''concat=n='' @ show_nat (length segments) @
        '':v=1:a=0[outv]'',
      stream_inputs ''a'' (length segments) @ ''concat=n='' @ show_nat (length segments) @
        '':v=0:a=1[outa]'',
      ''[outv][outa]concat=n=1:v=1:a=1[out]'']"

text \<open>\<open>RemsiProcessor.create_filter_complex\<close>, with its three return statements.\<close>

definition create_filter_complex :: "(real \<Rightarrow> string) \<Rightarrow> interval list \<Rightarrow> real \<Rightarrow> string" where
  "create_filter_complex fmt silence_segments video_duration =
     (if silence_segments = [] then ''[0:v][0:a]concat=n=1:v=1:a=1[out]''
      else if non_silent_segments silence_segments video_duration = [] then
        ''[0:v]trim=duration=0.1,setpts=PTS-STARTPTS[outv];[0:a]atrim=duration=0.1,asetpts=PTS-STARTPTS[outa];[outv][outa]concat=n=1:v=1:a=1[out]''
      else str_join '';''
             (segment_filters fmt (non_silent_segments silence_segments video_duration)))"

text \<open>\<open>VideoProcessor._create_filter_complex\<close>: the builder over a list of keep intervals.\<close>

definition vp_create_filter_complex :: "(real \<Rightarrow> string) \<Rightarrow> interval list \<Rightarrow> string" where
  "vp_create_filter_complex fmt segments =
     (if segments = [] then ''[0:v][0:a]concat=n=1:v=1:a=1[out]''
      else str_join '';'' (segment_filters fmt segments))"

text \<open>
  \<open>VideoProcessor._create_whisper_filter_complex\<close>: the same builder over the transcription
  model's segments, of which it reads \<open>segment['start']\<close> and \<open>segment['end']\<close>; a segment
  is modelled by this pair.
\<close>

definition create_whisper_filter_complex :: "(real \<Rightarrow> string) \<Rightarrow> interval list \<Rightarrow> string" where
  "create_whisper_filter_complex fmt segments =
     (if segments = [] then ''[0:v][0:a]concat=n=1:v=1:a=1[out]''
      else str_join '';'' (segment_filters fmt segments))"

text \<open>
  The nodes of a graph description: the filter chains that \<open>;\<close> separates in it.
\<close>

definition graph_nodes :: "string \<Rightarrow> string list" where
  "graph_nodes g = split_char (CHR '';'') g"

text \<open>
  A formatter for evaluating examples: it writes a non-negative number with one decimal
  digit, which is what Python's \<open>repr\<close> prints for the floats of the examples
  (\<open>2.0\<close>, \<open>11.5\<close>, \<open>0.0\<close>).
\<close>

definition fmt_tenths :: "real \<Rightarrow> string" where
  "fmt_tenths x = show_nat (nat \<lfloor>x\<rfloor>) @ ''.'' @ show_nat (nat \<lfloor>x * 10\<rfloor> mod 10)"

section \<open>The two parsers of the detector trace\<close>

text \<open>
  The exceptions the parsers can raise.  \<open>float\<close> is a builtin of Python; both parsers
  take it as the parameter \<open>conv\<close>, with \<open>None\<close> for its \<open>ValueError\<close>, so that what is
  proved of them holds for every text the builtin accepts.  Strings are ASCII.
\<close>

datatype py_error = ValueError | IndexError | UnboundLocalError

definition newline :: char where
  "newline = CHR 0x0A"

definition is_digit :: "char \<Rightarrow> bool" where
  "is_digit c \<longleftrightarrow> List.member ''0123456789'' c"

definition digit_or_dot :: "char \<Rightarrow> bool" where
  "digit_or_dot c \<longleftrightarrow> is_digit c \<or> c = CHR ''.''"

fun strip_prefix :: "string \<Rightarrow> string \<Rightarrow> string option" where
  "strip_prefix [] s = Some s"
| "strip_prefix (p # ps) [] = None"
| "strip_prefix (p # ps) (c # cs) = (if p = c then strip_prefix ps cs else None)"

text \<open>
  \<open>re.search(lit + r'([\d.]+)', s)\<close> for a literal \<open>lit\<close>: the leftmost position where
  the literal is followed by at least one digit or dot; the value is \<open>group(1)\<close>, the
  longest run of digits and dots there, and \<open>None\<close> when nothing matches.
\<close>

definition match_here :: "string \<Rightarrow> string \<Rightarrow> string option" where
  "match_here lit s =
     (case strip_prefix lit s of
        None \<Rightarrow> None
      | Some rest \<Rightarrow>
          if takeWhile digit_or_dot rest = [] then None else Some (takeWhile digit_or_dot rest))"

fun re_search :: "string \<Rightarrow> string \<Rightarrow> string option" where
  "re_search lit [] = match_here lit []"
| "re_search lit (c # cs) =
     (case match_here lit (c # cs) of Some g \<Rightarrow> Some g | None \<Rightarrow> re_search lit cs)"

text \<open>
  The loop of \<open>RemsiProcessor._parse_silence_output\<close> over the lines, with the state
  \<open>current_start\<close> and \<open>silence_segments\<close>:
  \<^verbatim>\<open>
    for line in lines:
        start_match = re.search(silence_start_pattern, line)
        if start_match:
            current_start = float(start_match.group(1))
            continue
        end_match = re.search(silence_end_pattern, line)
        if end_match and current_start is not None:
            end_time = float(end_match.group(1))
            silence_segments.append((current_start, end_time))
            current_start = None
    return silence_segments
  \<close>
\<close>

fun remsi_scan ::
  "(string \<Rightarrow> 'a option) \<Rightarrow> string list \<Rightarrow> 'a option \<Rightarrow> ('a \<times> 'a) list \<Rightarrow> py_error + ('a \<times> 'a) list"
where
  "remsi_scan conv [] current_start silence_segments = Inr silence_segments"
| "remsi_scan conv (line # rest) current_start silence_segments =
     (case re_search ''silence_start: '' line of
        Some g \<Rightarrow>
          (case conv g of
             None \<Rightarrow> Inl ValueError
           | Some t \<Rightarrow> remsi_scan conv rest (Some t) silence_segments)
      | None \<Rightarrow>
          (case re_search ''silence_end: '' line of
             None \<Rightarrow> remsi_scan conv rest current_start silence_segments
           | Some g \<Rightarrow>
               (case current_start of
                  None \<Rightarrow> remsi_scan conv rest current_start silence_segments
                | Some s \<Rightarrow>
                    (case conv g of
                       None \<Rightarrow> Inl ValueError
                     | Some end_time \<Rightarrow>
                         remsi_scan conv rest None (silence_segments @ [(s, end_time)])))))"

text \<open>\<open>RemsiProcessor._parse_silence_output\<close>: \<open>lines = output.split('\n')\<close>, then the loop.\<close>

definition remsi_parse_silence_output ::
  "(string \<Rightarrow> 'a option) \<Rightarrow> string \<Rightarrow> py_error + ('a \<times> 'a) list"
where
  "remsi_parse_silence_output conv output = remsi_scan conv (split_char newline output) None []"

text \<open>
  The string operations of \<open>VideoProcessor._parse_silence_output\<close>: \<open>sub in s\<close>,
  \<open>s.split(sep)[1]\<close> (the text between the first occurrence of \<open>sep\<close> and the next one;
  \<open>IndexError\<close> when \<open>sep\<close> does not occur) and \<open>s.split()[0]\<close> (the first run of
  non-blank characters; \<open>IndexError\<close> when there is none).
\<close>

fun str_contains :: "string \<Rightarrow> string \<Rightarrow> bool" where
  "str_contains sub [] = (sub = [])"
| "str_contains sub (c # cs) = (strip_prefix sub (c # cs) \<noteq> None \<or> str_contains sub cs)"

fun after_first :: "string \<Rightarrow> string \<Rightarrow> string option" where
  "after_first sep [] = strip_prefix sep []"
| "after_first sep (c # cs) =
     (case strip_prefix sep (c # cs) of Some r \<Rightarrow> Some r | None \<Rightarrow> after_first sep cs)"

fun before_first :: "string \<Rightarrow> string \<Rightarrow> string" where
  "before_first sep [] = []"
| "before_first sep (c # cs) =
     (if strip_prefix sep (c # cs) \<noteq> None then [] else c # before_first sep cs)"

definition is_space :: "char \<Rightarrow> bool" where
  "is_space c \<longleftrightarrow>
     List.member [CHR 0x09, CHR 0x0A, CHR 0x0B, CHR 0x0C, CHR 0x0D,
                  CHR 0x1C, CHR 0x1D, CHR 0x1E, CHR 0x1F, CHR 0x20] c"

definition marker_token :: "string \<Rightarrow> string \<Rightarrow> py_error + string" where
  "marker_token sep line =
     (case after_first sep line of
        None \<Rightarrow> Inl IndexError
      | Some r \<Rightarrow>
          if takeWhile (\<lambda>c. \<not> is_space c) (dropWhile is_space (before_first sep r)) = []
          then Inl IndexError
          else Inr (takeWhile (\<lambda>c. \<not> is_space c) (dropWhile is_space (before_first sep r))))"

text \<open>
  The loop of \<open>VideoProcessor._parse_silence_output\<close>.  The local \<open>start_time\<close> is unbound
  until a start line assigns it (\<open>None\<close>); reading it unbound raises \<open>UnboundLocalError\<close>.
  \<^verbatim>\<open>
    for line in lines:
        if 'silence_start' in line:
            start_time = float(line.split('silence_start: ')[1].split()[0])
        elif 'silence_end' in line:
            end_time = float(line.split('silence_end: ')[1].split()[0])
            segments.append((start_time, end_time))
    return segments
  \<close>
\<close>

fun vp_scan ::
  "(string \<Rightarrow> 'a option) \<Rightarrow> string list \<Rightarrow> 'a option \<Rightarrow> ('a \<times> 'a) list \<Rightarrow> py_error + ('a \<times> 'a) list"
where
  "vp_scan conv [] start_time segments = Inr segments"
| "vp_scan conv (line # rest) start_time segments =
     (if str_contains ''silence_start'' line then
        (case marker_token ''silence_start: '' line of
           Inl e \<Rightarrow> Inl e
         | Inr tok \<Rightarrow>
             (case conv tok of
                None \<Rightarrow> Inl ValueError
              | Some t \<Rightarrow> vp_scan conv rest (Some t) segments))
      else if str_contains ''silence_end'' line then
        (case marker_token ''silence_end: '' line of
           Inl e \<Rightarrow> Inl e
         | Inr tok \<Rightarrow>
             (case conv tok of
                None \<Rightarrow> Inl ValueError
              | Some end_time \<Rightarrow>
                  (case start_time of
                     None \<Rightarrow> Inl UnboundLocalError
                   | Some s \<Rightarrow> vp_scan conv rest start_time (segments @ [(s, end_time)]))))
      else vp_scan conv rest start_time segments)"

definition vp_parse_silence_output ::
  "(string \<Rightarrow> 'a option) \<Rightarrow> string \<Rightarrow> py_error + ('a \<times> 'a) list"
where
  "vp_parse_silence_output conv output = vp_scan conv (split_char newline output) None []"

text \<open>
  Python's \<open>float\<close> on plain decimal literals, for evaluating the parsers: digits with at
  most one dot and at least one digit (\<open>58.0\<close>, \<open>5\<close>, \<open>5.\<close>, \<open>.5\<close>); any other text made
  of digits and dots (\<open>.\<close>, \<open>1.2.3\<close>, the empty text) raises \<open>ValueError\<close>.  These are all
  the texts the pattern \<open>[\d.]+\<close> can capture.  The value is the decimal's value (the
  rounding to a double is left out).  A text with any other character is answered \<open>None\<close>
  too; that is Python's answer for a word such as \<open>abc\<close>, but not for a sign, an exponent,
  \<open>inf\<close> or \<open>nan\<close>, which the builtin accepts and no example below uses.
\<close>

definition digit_val :: "char \<Rightarrow> nat" where
  "digit_val c = length (takeWhile (\<lambda>d. d \<noteq> c) ''0123456789'')"

definition dec_value :: "string \<Rightarrow> nat" where
  "dec_value ds = foldl (\<lambda>n c. 10 * n + digit_val c) 0 ds"

definition py_float :: "string \<Rightarrow> real option" where
  "py_float s =
     (case dropWhile is_digit s of
        [] \<Rightarrow> if s = [] then None else Some (real (dec_value s))
      | c # decimals \<Rightarrow>
          if c = CHR ''.'' \<and> list_all is_digit decimals \<and> (takeWhile is_digit s \<noteq> [] \<or> decimals \<noteq> [])
          then Some (real (dec_value (takeWhile is_digit s @ decimals)) / 10 ^ length decimals)
          else None)"

text \<open>
  A line that is a start marker for the first parser, a line without a marker for the
  first parser, and the same for the second.
\<close>

definition remsi_no_marker :: "string \<Rightarrow> bool" where
  "remsi_no_marker line \<longleftrightarrow>
     re_search ''silence_start: '' line = None \<and> re_search ''silence_end: '' line = None"

definition vp_no_marker :: "string \<Rightarrow> bool" where
  "vp_no_marker line \<longleftrightarrow>
     \<not> str_contains ''silence_start'' line \<and> \<not> str_contains ''silence_end'' line"

section \<open>The job lifecycle\<close>

text \<open>
  A raised exception is its class name and its message; \<open>str(e)\<close> is the message.
\<close>

datatype exc = Exc (exc_class: string) (exc_msg: string)

text \<open>
  What lies outside the repository: the media tools, the transcription model and the file
  system.  Each field is the outcome of one external call, \<open>Inl e\<close> when the call raises
  \<open>e\<close>.
  \<^item> \<open>ffmpeg_probe path\<close>: \<open>float(ffmpeg.probe(path)['streams'][0]['duration'])\<close>;
  \<^item> \<open>run_ffprobe path\<close>: \<open>subprocess.run(probe_cmd, ...)\<close> followed by
    \<open>float(result.stdout.strip())\<close>;
  \<^item> \<open>run_silencedetect path threshold min_duration\<close>: \<open>subprocess.run(cmd, ...)\<close> of
    \<open>detect_silence\<close>, without \<open>check\<close>: \<open>Inl\<close> when the process cannot be started,
    otherwise the exit code and the captured output;
  \<^item> \<open>run_encode input filter_complex output\<close>: \<open>subprocess.run(process_cmd, check=True)\<close>:
    \<open>Inl\<close> when the process cannot be started or exits non-zero;
  \<^item> \<open>run_copy input output\<close>: the stream copy of the premium tier, with \<open>check=True\<close>;
  \<^item> \<open>whisper_loaded\<close>: whether \<open>self.whisper_model\<close> is already set; \<open>load_model\<close>:
    \<open>whisper.load_model("base")\<close>;
  \<^item> \<open>extract_audio input audio_path\<close>, \<open>transcribe audio_path\<close> (the start and end of the
    segments of \<open>result.get('segments', [])\<close>), \<open>remove_audio audio_path\<close> (the test
    \<open>os.path.exists\<close> and \<open>os.remove\<close>).
\<close>

record world =
  ffmpeg_probe :: "string \<Rightarrow> exc + real"
  run_ffprobe :: "string \<Rightarrow> exc + real"
  run_silencedetect :: "string \<Rightarrow> string \<Rightarrow> real \<Rightarrow> exc + int \<times> string"
  run_encode :: "string \<Rightarrow> string \<Rightarrow> string \<Rightarrow> exc + unit"
  run_copy :: "string \<Rightarrow> string \<Rightarrow> exc + unit"
  whisper_loaded :: bool
  load_model :: "exc + unit"
  extract_audio :: "string \<Rightarrow> string \<Rightarrow> exc + unit"
  transcribe :: "string \<Rightarrow> exc + interval list"
  remove_audio :: "string \<Rightarrow> exc + unit"

text \<open>The external calls a run makes, in order; the encoder call carries its graph.\<close>

datatype call =
    CallProbe | CallFfprobe | CallSilencedetect | CallEncode string | CallCopy
  | CallLoadModel | CallExtractAudio | CallTranscribe | CallRemoveAudio

text \<open>\<open>os.path.dirname\<close>, \<open>os.path.basename\<close> and \<open>os.path.join\<close> of two parts (POSIX).\<close>

definition path_basename :: "string \<Rightarrow> string" where
  "path_basename p = rev (takeWhile (\<lambda>c. c \<noteq> CHR ''/'') (rev p))"

definition path_dirname :: "string \<Rightarrow> string" where
  "path_dirname p =
     (let head = rev (dropWhile (\<lambda>c. c \<noteq> CHR ''/'') (rev p))
      in if head \<noteq> [] \<and> \<not> list_all (\<lambda>c. c = CHR ''/'') head
         then rev (dropWhile (\<lambda>c. c = CHR ''/'') (rev head)) else head)"

definition path_join :: "string \<Rightarrow> string \<Rightarrow> string" where
  "path_join a b =
     (if b \<noteq> [] \<and> hd b = CHR ''/'' then b
      else if a = [] \<or> last a = CHR ''/'' then a @ b
      else a @ ''/'' @ b)"

text \<open>
  \<open>VideoProcessor.get_video_duration\<close>: the probed duration, and \<open>0.0\<close> when anything
  raises.
\<close>

definition get_video_duration :: "world \<Rightarrow> string \<Rightarrow> real" where
  "get_video_duration w file_path =
     (case ffmpeg_probe w file_path of Inr duration \<Rightarrow> duration | Inl e \<Rightarrow> 0)"

text \<open>
  \<open>RemsiProcessor.detect_silence\<close>: the exit code is not read, and every exception (of
  the call or of the parser) is caught and answered by the empty list.
\<close>

definition detect_silence ::
  "(string \<Rightarrow> real option) \<Rightarrow> world \<Rightarrow> string \<Rightarrow> string \<Rightarrow> real \<Rightarrow> interval list"
where
  "detect_silence conv w video_path silence_threshold min_duration =
     (case run_silencedetect w video_path silence_threshold min_duration of
        Inl e \<Rightarrow> []
      | Inr (returncode, out) \<Rightarrow>
          (case remsi_parse_silence_output conv out of
             Inl e \<Rightarrow> []
           | Inr silence_segments \<Rightarrow> silence_segments))"

text \<open>
  \<open>RemsiProcessor.process_video\<close>: the result is \<open>True\<close> or \<open>False\<close>; every exception is
  caught, printed and answered by \<open>False\<close>.  The second component is the external calls
  made.
\<close>

definition process_video ::
  "(string \<Rightarrow> real option) \<Rightarrow> (real \<Rightarrow> string) \<Rightarrow> world \<Rightarrow> string \<Rightarrow> string \<Rightarrow> string \<Rightarrow> real
     \<Rightarrow> bool \<times> call list"
where
  "process_video conv fmt w input_path output_path silence_threshold min_duration =
     (case run_ffprobe w input_path of
        Inl e \<Rightarrow> (False, [CallFfprobe])
      | Inr video_duration \<Rightarrow>
          (let silence_segments =
                 detect_silence conv w input_path silence_threshold min_duration;
               filter_complex = create_filter_complex fmt silence_segments video_duration
           in (case run_encode w input_path filter_complex output_path of
                 Inl e \<Rightarrow> (False, [CallFfprobe, CallSilencedetect, CallEncode filter_complex])
               | Inr u \<Rightarrow> (True, [CallFfprobe, CallSilencedetect, CallEncode filter_complex]))))"

text \<open>
  \<open>VideoProcessor.process_with_ffmpeg\<close>: the result is the output path or the exception
  that leaves the function (its \<open>except\<close> clause prints and re-raises).
\<close>

definition process_with_ffmpeg ::
  "(string \<Rightarrow> real option) \<Rightarrow> (real \<Rightarrow> string) \<Rightarrow> world \<Rightarrow> string \<Rightarrow> (exc + string) \<times> call list"
where
  "process_with_ffmpeg conv fmt w file_path =
     (let duration = get_video_duration w file_path in
      if duration > 60 then
        (Inl (Exc ''ValueError'' ''Free tier only supports videos under 1 minute''), [CallProbe])
      else
        (let output_path =
               path_join (path_dirname file_path) (''processed_'' @ path_basename file_path)
         in (case process_video conv fmt w file_path output_path ''-50dB'' 1.0 of
               (success, calls) \<Rightarrow>
                 if \<not> success then
                   (Inl (Exc ''Exception'' ''Failed to process video with Remsi''),
                    CallProbe # calls)
                 else (Inr output_path, CallProbe # calls))))"

text \<open>
  Sequencing of the premium tier's steps: the first exception ends the run and is the
  result; the calls made are collected.
\<close>

definition call_step :: "call \<Rightarrow> exc + 'a \<Rightarrow> (exc + 'a) \<times> call list" where
  "call_step c outcome = (outcome, [c])"

definition step_then ::
  "(exc + 'a) \<times> call list \<Rightarrow> ('a \<Rightarrow> (exc + 'b) \<times> call list) \<Rightarrow> (exc + 'b) \<times> call list"
where
  "step_then m f =
     (case m of
        (Inl e, calls) \<Rightarrow> (Inl e, calls)
      | (Inr x, calls) \<Rightarrow> (case f x of (r, calls') \<Rightarrow> (r, calls @ calls')))"

text \<open>
  \<open>VideoProcessor.process_with_whisper\<close>: load the model unless loaded, extract the audio,
  transcribe, encode with the graph of the segments (or copy the file when there are
  none), remove the audio file.  Its \<open>except\<close> clause prints and re-raises.
\<close>

definition process_with_whisper ::
  "(real \<Rightarrow> string) \<Rightarrow> world \<Rightarrow> string \<Rightarrow> (exc + string) \<times> call list"
where
  "process_with_whisper fmt w file_path =
     (let output_path =
            path_join (path_dirname file_path) (''processed_'' @ path_basename file_path);
          audio_path =
            path_join ''temp_processing'' (''audio_'' @ path_basename file_path @ ''.wav'')
      in
      step_then (if whisper_loaded w then (Inr (), []) else call_step CallLoadModel (load_model w))
        (\<lambda>_.
      step_then (call_step CallExtractAudio (extract_audio w file_path audio_path))
        (\<lambda>_.
      step_then (call_step CallTranscribe (transcribe w audio_path))
        (\<lambda>segments.
      step_then
        (if segments \<noteq> [] then
           call_step (CallEncode (create_whisper_filter_complex fmt segments))
             (run_encode w file_path (create_whisper_filter_complex fmt segments) output_path)
         else call_step CallCopy (run_copy w file_path output_path))
        (\<lambda>_.
      step_then (call_step CallRemoveAudio (remove_audio w audio_path))
        (\<lambda>_. (Inr output_path, [])))))))"

text \<open>
  The job record (the columns the tasks read or write, and the identity and tier) and the
  job store, from job id to record.
\<close>

datatype JobStatus = PENDING | PROCESSING | COMPLETED | FAILED

record job =
  job_id :: string
  use_premium :: bool
  status :: JobStatus
  processed_file_url :: "string option"
  error_message :: "string option"

type_synonym job_store = "string \<Rightarrow> job option"

text \<open>
  The two tasks share their frame; \<open>run_job\<close> is that frame with the processing step as
  its argument:
  \<^verbatim>\<open>
    try:
        job = db.query(Job).filter(Job.id == job_id).first()
        if not job:
            return
        job.status = JobStatus.PROCESSING
        db.commit()
        output_path = <processing step>(file_path)
        job.status = JobStatus.COMPLETED
        job.processed_file_url = f"/downloads/{job_id}/processed_{os.path.basename(file_path)}"
        db.commit()
    except Exception as e:
        job = db.query(Job).filter(Job.id == job_id).first()
        if job:
            job.status = JobStatus.FAILED
            job.error_message = str(e)
            db.commit()
  \<close>
  The store itself is taken to answer (a query or commit that raises is outside the
  model).
\<close>

definition run_job ::
  "(exc + string) \<times> call list \<Rightarrow> job_store \<Rightarrow> string \<Rightarrow> string \<Rightarrow> job_store \<times> call list"
where
  "run_job processing db jid file_path =
     (case db jid of
        None \<Rightarrow> (db, [])
      | Some j \<Rightarrow>
          (let db1 = db(jid \<mapsto> j\<lparr>status := PROCESSING\<rparr>) in
           case processing of
             (Inr output_path, calls) \<Rightarrow>
               (db1(jid \<mapsto> j\<lparr>status := COMPLETED,
                     processed_file_url :=
                       Some (''/downloads/'' @ jid @ ''/processed_'' @ path_basename file_path)\<rparr>),
                calls)
           | (Inl e, calls) \<Rightarrow>
               (case db1 jid of
                  None \<Rightarrow> (db1, calls)
                | Some j' \<Rightarrow>
                    (db1(jid \<mapsto> j'\<lparr>status := FAILED, error_message := Some (exc_msg e)\<rparr>),
                     calls))))"

text \<open>The Celery tasks \<open>process_video_free\<close> and \<open>process_video_premium\<close>.\<close>

definition process_video_free ::
  "(string \<Rightarrow> real option) \<Rightarrow> (real \<Rightarrow> string) \<Rightarrow> world \<Rightarrow> job_store \<Rightarrow> string \<Rightarrow> string
     \<Rightarrow> job_store \<times> call list"
where
  "process_video_free conv fmt w db jid file_path =
     run_job (process_with_ffmpeg conv fmt w file_path) db jid file_path"

definition process_video_premium ::
  "(real \<Rightarrow> string) \<Rightarrow> world \<Rightarrow> job_store \<Rightarrow> string \<Rightarrow> string \<Rightarrow> job_store \<times> call list"
where
  "process_video_premium fmt w db jid file_path =
     run_job (process_with_whisper fmt w file_path) db jid file_path"

text \<open>
  A world in which every external call succeeds, a pending basic-tier job and a store that
  holds it; the examples below vary them.
\<close>

definition sample_world :: world where
  "sample_world =
     \<lparr>ffmpeg_probe = (\<lambda>_. Inr 30),
      run_ffprobe = (\<lambda>_. Inr 30),
      run_silencedetect =
        (\<lambda>_ _ _. Inr (0, ''silence_start: 2.0'' @ [newline] @ ''silence_end: 4.0'')),
      run_encode = (\<lambda>_ _ _. Inr ()),
      run_copy = (\<lambda>_ _. Inr ()),
      whisper_loaded = False,
      load_model = Inr (),
      extract_audio = (\<lambda>_ _. Inr ()),
      transcribe = (\<lambda>_. Inr [(0, 2), (4, 10)]),
      remove_audio = (\<lambda>_. Inr ())\<rparr>"

definition sample_job :: job where
  "sample_job =
     \<lparr>job_id = ''job1'', use_premium = False, status = PENDING,
      processed_file_url = None, error_message = None\<rparr>"

definition sample_store :: job_store where
  "sample_store = [''job1'' \<mapsto> sample_job]"

text \<open>
  The values of the locals \<open>output_path\<close> (both tiers) and \<open>audio_path\<close> (premium tier)
  for an input path, to state the properties below.
\<close>

abbreviation output_path_of :: "string \<Rightarrow> string" where
  "output_path_of file_path \<equiv>
     path_join (path_dirname file_path) (''processed_'' @ path_basename file_path)"

abbreviation audio_path_of :: "string \<Rightarrow> string" where
  "audio_path_of file_path \<equiv>
     path_join ''temp_processing'' (''audio_'' @ path_basename file_path @ ''.wav'')"

section \<open>Properties of the keep-interval computation\<close>

lemma scan_silence_gaps:
  "(case scan_silence xs le acc of (segs, l) \<Rightarrow> if l < d then segs @ [(l, d)] else segs)
     = acc @ gaps_from le xs d"
  by (induction xs arbitrary: le acc) auto

lemma non_silent_segments_gaps: "non_silent_segments xs d = gaps_from 0 xs d"
  using scan_silence_gaps [where xs = xs and le = 0 and acc = "[]" and d = d]
  by (simp add: non_silent_segments_def)

lemma silence_ok_chain:
  "list_all (\<lambda>(s, e). 0 \<le> s \<and> s < e \<and> s \<le> d) xs \<Longrightarrow>
   sorted_wrt (\<lambda>a b. snd a \<le> fst b) xs \<Longrightarrow> \<forall>x\<in>set xs. c \<le> fst x \<Longrightarrow> chain c xs d"
proof (induction xs arbitrary: c)
  case Nil
  then show ?case by simp
next
  case (Cons x xs)
  obtain s e where x: "x = (s, e)" by (cases x)
  from Cons.prems have "chain e xs d"
    by (intro Cons.IH) (auto simp: x)
  with Cons.prems show ?case by (auto simp: x)
qed

lemma silence_ok_chain0: "silence_ok xs d \<Longrightarrow> chain 0 xs d"
  unfolding silence_ok_def
  by (rule silence_ok_chain) (auto simp: list_all_iff)

lemma gaps_spec_chain:
  "chain c xs d \<Longrightarrow> 0 \<le> c \<Longrightarrow> gaps_spec c xs d = gaps_from c xs d"
proof (induction xs arbitrary: c)
  case Nil
  then show ?case by (simp add: clamp_gap_def max_def)
next
  case (Cons x xs)
  obtain s e where x: "x = (s, e)" by (cases x)
  from Cons.prems have ce: "max c e = e" "0 \<le> e" "chain e xs d" by (auto simp: x)
  from Cons.prems have cl: "clamp_gap c s d = (if s > c then [(c, s)] else [])"
    by (auto simp: x clamp_gap_def max_def min_def)
  show ?case using Cons.IH [OF ce(3) ce(2)] by (simp add: x ce(1) cl)
qed

text \<open>
  On a chain, coalescing only joins intervals that touch, which leaves the gaps as they
  were.
\<close>

lemma coalesce_chain:
  "chain c xs d \<Longrightarrow> chain c (coalesce xs) d \<and> gaps_from c (coalesce xs) d = gaps_from c xs d"
proof (induction xs arbitrary: c rule: coalesce.induct)
  case 1
  then show ?case by simp
next
  case (2 x)
  then show ?case by simp
next
  case (3 s1 e1 s2 e2 rest)
  show ?case
  proof (cases "s2 \<le> e1")
    case True
    with "3.prems" have eq: "s2 = e1" "max e1 e2 = e2" by auto
    from "3.prems" have "chain c ((s1, max e1 e2) # rest) d" by (auto simp: eq)
    from "3.IH"(1) [OF True this] True "3.prems" show ?thesis by (auto simp: eq)
  next
    case False
    from "3.prems" have "chain e1 ((s2, e2) # rest) d" by auto
    from "3.IH"(2) [OF False this] False "3.prems" show ?thesis by auto
  qed
qed

lemma sorted_fst_chain: "chain c xs d \<Longrightarrow> sorted (map fst xs) \<and> (\<forall>x\<in>set xs. c \<le> fst x)"
proof (induction xs arbitrary: c)
  case Nil
  then show ?case by simp
next
  case (Cons x xs)
  obtain s e where x: "x = (s, e)" by (cases x)
  from Cons.prems have "chain e xs d" "c \<le> s" "s < e" by (auto simp: x)
  with Cons.IH [of e] show ?case by (fastforce simp: x)
qed

lemma merge_spec_chain:
  assumes "chain 0 xs d"
  shows "complement_spec (merge_spec xs) d = gaps_from 0 xs d"
proof -
  from assms have "sorted (map fst xs)" using sorted_fst_chain by blast
  then have "sort_key fst xs = xs" by (rule sort_key_id_if_sorted)
  then have m: "merge_spec xs = coalesce xs" by (simp add: merge_spec_def)
  from coalesce_chain [OF assms]
  have "chain 0 (coalesce xs) d" "gaps_from 0 (coalesce xs) d = gaps_from 0 xs d" by auto
  then show ?thesis using gaps_spec_chain [of 0 "coalesce xs" d]
    by (simp add: complement_spec_def m)
qed

lemma complement_of_silence_ok:
  "silence_ok silence d \<Longrightarrow> non_silent_segments silence d = complement_spec (merge_spec silence) d"
  by (simp add: non_silent_segments_gaps merge_spec_chain silence_ok_chain0)

lemma keep_ok_gaps:
  "chain c xs d \<Longrightarrow> 0 \<le> c \<Longrightarrow>
   sorted_wrt (\<lambda>a b. fst a < fst b \<and> snd a \<le> fst b) (gaps_from c xs d) \<and>
   list_all (\<lambda>(s, e). c \<le> s \<and> s < e \<and> e \<le> d) (gaps_from c xs d)"
proof (induction xs arbitrary: c)
  case Nil
  then show ?case by simp
next
  case (Cons x xs)
  obtain s e where x: "x = (s, e)" by (cases x)
  from Cons.prems have ce: "chain e xs d" "0 \<le> e" "c \<le> s" "s < e" "s \<le> d" by (auto simp: x)
  from Cons.IH [OF ce(1) ce(2)]
  have ih: "sorted_wrt (\<lambda>a b. fst a < fst b \<and> snd a \<le> fst b) (gaps_from e xs d)"
    "list_all (\<lambda>(s, e'). e \<le> s \<and> s < e' \<and> e' \<le> d) (gaps_from e xs d)" by auto
  from ih(2) ce have "list_all (\<lambda>(s, e). c \<le> s \<and> s < e \<and> e \<le> d) (gaps_from e xs d)"
    by (auto simp: list_all_iff)
  moreover from ih(2) ce have "\<forall>y\<in>set (gaps_from e xs d). c < fst y \<and> s \<le> fst y"
    by (auto simp: list_all_iff)
  ultimately show ?case using ih(1) ce by (auto simp: x)
qed

text \<open>
  Claim C1.  As stated (the plan is the complement of the merged silence for every silence
  list) the claim fails: the source has no merge step and no clamping of a start beyond
  the duration.  What holds: for every silence list that is ordered, non-overlapping and
  starts inside \<open>[0, D]\<close> (\<open>silence_ok\<close>), the keep list that \<open>create_filter_complex\<close>
  computes is the complement of the merged silence over \<open>[0, D]\<close>; and for
  \<open>silence = [(2.0, 4.0), (10.0, 11.5)]\<close>, \<open>D = 15.0\<close> it is
  \<open>[(0, 2.0), (4.0, 10.0), (11.5, 15.0)]\<close>.
\<close>

theorem non_silent_segments_complement:
  "(silence_ok silence D \<longrightarrow>
      non_silent_segments silence D = complement_spec (merge_spec silence) D) \<and>
   non_silent_segments [(2.0, 4.0), (10.0, 11.5)] 15.0 = [(0, 2.0), (4.0, 10.0), (11.5, 15.0)]"
proof (intro conjI impI)
  assume "silence_ok silence D"
  then show "non_silent_segments silence D = complement_spec (merge_spec silence) D"
    by (rule complement_of_silence_ok)
next
  show "non_silent_segments [(2.0, 4.0), (10.0, 11.5)] 15.0 =
      [(0, 2.0), (4.0, 10.0), (11.5, 15.0)]"
    by (simp add: non_silent_segments_def)
qed

theorem non_silent_segments_complement_witness:
  "silence_ok [(2.0, 4.0), (10.0, 11.5)] 15.0 \<and>
   non_silent_segments [(2.0, 4.0), (10.0, 11.5)] 15.0 =
     complement_spec (merge_spec [(2.0, 4.0), (10.0, 11.5)]) 15.0 \<and>
   complement_spec (merge_spec [(2.0, 4.0), (10.0, 11.5)]) 15.0 =
     [(0, 2.0), (4.0, 10.0), (11.5, 15.0)]"
proof -
  have ok: "silence_ok [(2.0, 4.0), (10.0, 11.5)] 15.0"
    by (simp add: silence_ok_def)
  from non_silent_segments_complement [of "[(2.0, 4.0), (10.0, 11.5)]" "15.0"] ok
  have eq: "non_silent_segments [(2.0, 4.0), (10.0, 11.5)] 15.0 =
      complement_spec (merge_spec [(2.0, 4.0), (10.0, 11.5)]) 15.0"
    and ex: "non_silent_segments [(2.0, 4.0), (10.0, 11.5)] 15.0 =
      [(0, 2.0), (4.0, 10.0), (11.5, 15.0)]"
    by blast+
  from ok eq ex show ?thesis by simp
qed

text \<open>
  The claim as stated is false at an unordered list (silence markers out of order) and at
  a silence interval that starts after the duration.
\<close>

theorem non_silent_segments_complement_counterexample:
  "non_silent_segments [(5, 10), (2, 4)] 15 = [(0, 5), (4, 15)] \<and>
   complement_spec (merge_spec [(5, 10), (2, 4)]) 15 = [(0, 2), (4, 5), (10, 15)] \<and>
   non_silent_segments [(5, 10), (2, 4)] 15 \<noteq> complement_spec (merge_spec [(5, 10), (2, 4)]) 15 \<and>
   non_silent_segments [(20, 25)] 15 = [(0, 20)] \<and>
   complement_spec (merge_spec [(20, 25)]) 15 = [(0, 15)]"
  by (simp add: non_silent_segments_def complement_spec_def merge_spec_def clamp_gap_def)

text \<open>
  Claim C3.  As stated the claim fails where the silence list is not ordered and
  non-overlapping: the merged silence can cover \<open>[0, D]\<close> while the source still computes a
  non-empty keep list.  What holds: for \<open>0 < D\<close> and a \<open>silence_ok\<close> list whose merged
  silence covers \<open>[0, D]\<close> (its complement is empty), the keep list is empty and
  \<open>create_filter_complex\<close> returns the fixed graph that trims the first 0.1 seconds of video
  and audio.
\<close>

theorem entire_silence_minimal_graph:
  assumes "silence_ok silence D" and "0 < D"
    and "complement_spec (merge_spec silence) D = []"
  shows "non_silent_segments silence D = [] \<and>
    create_filter_complex fmt silence D =
      ''[0:v]trim=duration=0.1,setpts=PTS-STARTPTS[outv];[0:a]atrim=duration=0.1,asetpts=PTS-STARTPTS[outa];[outv][outa]concat=n=1:v=1:a=1[out]''"
proof -
  from assms(1,3) have empty: "non_silent_segments silence D = []"
    by (simp add: complement_of_silence_ok)
  have "silence \<noteq> []"
  proof
    assume "silence = []"
    with assms(2,3) show False
      by (simp add: complement_spec_def merge_spec_def clamp_gap_def)
  qed
  with empty show ?thesis by (simp add: create_filter_complex_def)
qed

theorem entire_silence_minimal_graph_witness:
  "silence_ok [(0, 4), (4, 10)] 10 \<and> (0::real) < 10 \<and>
   complement_spec (merge_spec [(0, 4), (4, 10)]) 10 = [] \<and>
   create_filter_complex fmt_tenths [(0, 4), (4, 10)] 10 =
     ''[0:v]trim=duration=0.1,setpts=PTS-STARTPTS[outv];[0:a]atrim=duration=0.1,asetpts=PTS-STARTPTS[outa];[outv][outa]concat=n=1:v=1:a=1[out]''"
proof -
  have ok: "silence_ok [(0, 4), (4, 10)] 10"
    by (simp add: silence_ok_def)
  have pos: "(0::real) < 10" by simp
  have cov: "complement_spec (merge_spec [(0, 4), (4, 10)]) 10 = []"
    by (simp add: complement_spec_def merge_spec_def clamp_gap_def)
  from entire_silence_minimal_graph [OF ok pos cov, of fmt_tenths] ok pos cov
  show ?thesis by blast
qed

text \<open>
  The claim as stated is false where one silence interval lies inside another: the merged
  silence covers \<open>[0, 10]\<close> and the keep list is the single interval \<open>(3, 10)\<close>.  It is
  also false for a clip of duration 0 with no silence, where the source returns the
  pass-through graph.
\<close>

theorem entire_silence_counterexample:
  "complement_spec (merge_spec [(0, 10), (2, 3)]) 10 = [] \<and>
   non_silent_segments [(0, 10), (2, 3)] 10 = [(3, 10)] \<and>
   create_filter_complex fmt_tenths [(0, 10), (2, 3)] 10 =
     vp_create_filter_complex fmt_tenths [(3, 10)] \<and>
   complement_spec (merge_spec []) 0 = [] \<and>
   create_filter_complex fmt_tenths [] 0 = ''[0:v][0:a]concat=n=1:v=1:a=1[out]''"
  by (simp add: non_silent_segments_def complement_spec_def merge_spec_def clamp_gap_def
      create_filter_complex_def vp_create_filter_complex_def)

text \<open>
  Claim C4.  As stated (for every silence list) the claim fails.  What holds: for every
  \<open>silence_ok\<close> silence list the keep list is strictly ascending by start, pairwise
  non-overlapping, and every interval is non-empty and lies within \<open>[0, D]\<close>.
\<close>

theorem keep_intervals_sorted_disjoint_bounded:
  assumes "silence_ok silence D"
  shows "keep_ok (non_silent_segments silence D) D"
  using keep_ok_gaps [OF silence_ok_chain0 [OF assms], simplified]
  by (simp add: keep_ok_def non_silent_segments_gaps)

theorem keep_intervals_sorted_disjoint_bounded_witness:
  "silence_ok [(2.0, 4.0), (10.0, 11.5)] 15.0 \<and>
   keep_ok (non_silent_segments [(2.0, 4.0), (10.0, 11.5)] 15.0) 15.0"
proof -
  have ok: "silence_ok [(2.0, 4.0), (10.0, 11.5)] 15.0"
    by (simp add: silence_ok_def)
  from keep_intervals_sorted_disjoint_bounded [OF ok] ok show ?thesis by blast
qed

text \<open>
  The claim as stated is false at an unordered silence list (the keep intervals
  \<open>(0, 5)\<close> and \<open>(4, 15)\<close> overlap) and at a silence interval that starts after the
  duration (the keep interval \<open>(0, 20)\<close> leaves \<open>[0, 15]\<close>).
\<close>

theorem keep_intervals_counterexample:
  "\<not> keep_ok (non_silent_segments [(5, 10), (2, 4)] 15) 15 \<and>
   \<not> keep_ok (non_silent_segments [(20, 25)] 15) 15"
  by (simp add: non_silent_segments_def keep_ok_def)

section \<open>Properties of the filter-graph builders\<close>

lemma split_char_notin: "c \<notin> set x \<Longrightarrow> split_char c x = [x]"
  by (induction x) auto

lemma split_char_append: "c \<notin> set x \<Longrightarrow> split_char c (x @ c # rest) = x # split_char c rest"
  by (induction x) auto

lemma split_char_join:
  "xs \<noteq> [] \<Longrightarrow> \<forall>x\<in>set xs. c \<notin> set x \<Longrightarrow> split_char c (str_join [c] xs) = xs"
proof (induction xs rule: induct_list012)
  case 1
  then show ?case by simp
next
  case (2 x)
  then show ?case by (simp add: split_char_notin)
next
  case (3 x y ys)
  then show ?case by (simp add: split_char_append)
qed

lemma digit_not_semicolon: "n < 10 \<Longrightarrow> ''0123456789'' ! n \<noteq> CHR '';''"
proof -
  assume "n < 10"
  then have "''0123456789'' ! n \<in> set ''0123456789''" by (intro nth_mem) simp
  then show ?thesis by auto
qed

lemma show_nat_no_semicolon: "CHR '';'' \<notin> set (show_nat n)"
proof (induction n rule: show_nat.induct)
  case (1 n)
  show ?case
  proof (cases "n < 10")
    case True
    then show ?thesis using digit_not_semicolon [of n] by (subst show_nat.simps) simp
  next
    case False
    then show ?thesis using "1.IH" digit_not_semicolon [of "n mod 10"]
      by (subst show_nat.simps) simp
  qed
qed

lemma fmt_tenths_no_semicolon: "CHR '';'' \<notin> set (fmt_tenths x)"
  by (simp add: fmt_tenths_def show_nat_no_semicolon)

lemma stream_inputs_no_semicolon:
  "CHR '';'' \<notin> set tag \<Longrightarrow> CHR '';'' \<notin> set (stream_inputs tag n)"
  by (auto simp: stream_inputs_def show_nat_no_semicolon)

lemma trim_filters_no_semicolon:
  "\<forall>x. CHR '';'' \<notin> set (fmt x) \<Longrightarrow> \<forall>f\<in>set (trim_filters fmt i segs). CHR '';'' \<notin> set f"
  by (induction fmt i segs rule: trim_filters.induct) (auto simp: show_nat_no_semicolon)

lemma length_trim_filters: "length (trim_filters fmt i segs) = 2 * length segs"
  by (induction fmt i segs rule: trim_filters.induct) auto

lemma segment_filters_no_semicolon:
  "\<forall>x. CHR '';'' \<notin> set (fmt x) \<Longrightarrow> \<forall>f\<in>set (segment_filters fmt segs). CHR '';'' \<notin> set f"
  using trim_filters_no_semicolon [of fmt 0 segs]
  by (auto simp: segment_filters_def show_nat_no_semicolon stream_inputs_no_semicolon)

lemma length_segment_filters: "length (segment_filters fmt segs) = 2 * length segs + 3"
  by (simp add: segment_filters_def length_trim_filters)

lemma graph_nodes_segment_filters:
  assumes "\<forall>x. CHR '';'' \<notin> set (fmt x)"
  shows "graph_nodes (str_join '';'' (segment_filters fmt segs)) = segment_filters fmt segs"
proof -
  have "segment_filters fmt segs \<noteq> []" by (simp add: segment_filters_def)
  then show ?thesis
    unfolding graph_nodes_def
    using split_char_join [of "segment_filters fmt segs" "CHR '';''"]
      segment_filters_no_semicolon [OF assms, of segs]
    by simp
qed

lemma show_nat_small:
  "show_nat 0 = ''0''" "show_nat (Suc 0) = ''1''" "show_nat 1 = ''1''" "show_nat 2 = ''2''"
  by (subst show_nat.simps, simp)+

lemma segment_filters_single:
  "segment_filters fmt [(s, e)] =
     [''[0:v]trim=start='' @ fmt s @ '':end='' @ fmt e @ '',setpts=PTS-STARTPTS[v0]'',
      ''[0:a]atrim=start='' @ fmt s @ '':end='' @ fmt e @ '',asetpts=PTS-STARTPTS[a0]'',
      ''[v0]concat=n=1:v=1:a=0[outv]'',
      ''[a0]concat=n=1:v=0:a=1[outa]'',
      ''[outv][outa]concat=n=1:v=1:a=1[out]'']"
  by (simp add: segment_filters_def stream_inputs_def show_nat_small)

lemma vp_node_count:
  assumes "\<forall>x. CHR '';'' \<notin> set (fmt x)"
  shows "length (graph_nodes (vp_create_filter_complex fmt keep)) =
    (if keep = [] then 1 else 2 * length keep + 3)"
proof (cases "keep = []")
  case True
  then show ?thesis by (simp add: vp_create_filter_complex_def graph_nodes_def)
next
  case False
  then show ?thesis
    by (simp add: vp_create_filter_complex_def graph_nodes_segment_filters [OF assms]
        length_segment_filters)
qed

lemma remsi_node_count:
  assumes "\<forall>x. CHR '';'' \<notin> set (fmt x)" and "silence \<noteq> []"
  shows "length (graph_nodes (create_filter_complex fmt silence D)) =
    2 * length (non_silent_segments silence D) + 3"
proof (cases "non_silent_segments silence D = []")
  case True
  with assms(2) show ?thesis by (simp add: create_filter_complex_def graph_nodes_def)
next
  case False
  with assms(2) show ?thesis
    by (simp add: create_filter_complex_def graph_nodes_segment_filters [OF assms(1)]
        length_segment_filters)
qed

text \<open>
  Claim C5.  The builders read nothing but their arguments (no field of \<open>self\<close>, no clock,
  no counter), so they are functions of the keep list (and of the language's float
  formatting): equal keep lists give equal graph descriptions, and the builder inlined in
  \<open>RemsiProcessor.create_filter_complex\<close> gives the same description as
  \<open>VideoProcessor._create_filter_complex\<close> on the same non-empty keep list.  The number of
  nodes of the description depends on the number of keep intervals only: \<open>2 n + 3\<close> for
  \<open>n\<close> keep intervals (and the single pass-through node for the second builder on an empty
  list); one keep interval gives the full chain of five nodes.  Float formatting never
  prints a \<open>;\<close>.
\<close>

theorem filter_graph_deterministic:
  assumes "\<forall>x. CHR '';'' \<notin> set (fmt x)"
  shows "(keep = keep' \<longrightarrow>
            vp_create_filter_complex fmt keep = vp_create_filter_complex fmt keep') \<and>
         (silence \<noteq> [] \<and> non_silent_segments silence D = keep \<and> keep \<noteq> [] \<longrightarrow>
            create_filter_complex fmt silence D = vp_create_filter_complex fmt keep) \<and>
         length (graph_nodes (vp_create_filter_complex fmt keep)) =
           (if keep = [] then 1 else 2 * length keep + 3) \<and>
         (silence \<noteq> [] \<longrightarrow>
            length (graph_nodes (create_filter_complex fmt silence D)) =
              2 * length (non_silent_segments silence D) + 3) \<and>
         graph_nodes (vp_create_filter_complex fmt [(s, e)]) =
           [''[0:v]trim=start='' @ fmt s @ '':end='' @ fmt e @ '',setpts=PTS-STARTPTS[v0]'',
            ''[0:a]atrim=start='' @ fmt s @ '':end='' @ fmt e @ '',asetpts=PTS-STARTPTS[a0]'',
            ''[v0]concat=n=1:v=1:a=0[outv]'',
            ''[a0]concat=n=1:v=0:a=1[outa]'',
            ''[outv][outa]concat=n=1:v=1:a=1[out]'']"
proof (intro conjI impI)
  assume "keep = keep'"
  then show "vp_create_filter_complex fmt keep = vp_create_filter_complex fmt keep'" by simp
next
  assume "silence \<noteq> [] \<and> non_silent_segments silence D = keep \<and> keep \<noteq> []"
  then show "create_filter_complex fmt silence D = vp_create_filter_complex fmt keep"
    by (auto simp: create_filter_complex_def vp_create_filter_complex_def)
next
  show "length (graph_nodes (vp_create_filter_complex fmt keep)) =
      (if keep = [] then 1 else 2 * length keep + 3)"
    by (rule vp_node_count [OF assms])
next
  assume "silence \<noteq> []"
  then show "length (graph_nodes (create_filter_complex fmt silence D)) =
      2 * length (non_silent_segments silence D) + 3"
    by (rule remsi_node_count [OF assms])
next
  have "graph_nodes (vp_create_filter_complex fmt [(s, e)]) = segment_filters fmt [(s, e)]"
    by (simp add: vp_create_filter_complex_def graph_nodes_segment_filters [OF assms])
  then show "graph_nodes (vp_create_filter_complex fmt [(s, e)]) =
      [''[0:v]trim=start='' @ fmt s @ '':end='' @ fmt e @ '',setpts=PTS-STARTPTS[v0]'',
       ''[0:a]atrim=start='' @ fmt s @ '':end='' @ fmt e @ '',asetpts=PTS-STARTPTS[a0]'',
       ''[v0]concat=n=1:v=1:a=0[outv]'',
       ''[a0]concat=n=1:v=0:a=1[outa]'',
       ''[outv][outa]concat=n=1:v=1:a=1[out]'']"
    by (simp only: segment_filters_single)
qed

theorem filter_graph_deterministic_witness:
  "(\<forall>x. CHR '';'' \<notin> set (fmt_tenths x)) \<and>
   create_filter_complex fmt_tenths [(2.0, 4.0), (10.0, 11.5)] 15.0 =
     vp_create_filter_complex fmt_tenths [(0, 2.0), (4.0, 10.0), (11.5, 15.0)] \<and>
   length (graph_nodes (vp_create_filter_complex fmt_tenths [(0, 2.0), (4.0, 10.0), (11.5, 15.0)])) = 9 \<and>
   length (graph_nodes (create_filter_complex fmt_tenths [(2.0, 4.0), (10.0, 11.5)] 15.0)) = 9 \<and>
   graph_nodes (vp_create_filter_complex fmt_tenths [(4.0, 10.0)]) =
     [''[0:v]trim=start=4.0:end=10.0,setpts=PTS-STARTPTS[v0]'',
      ''[0:a]atrim=start=4.0:end=10.0,asetpts=PTS-STARTPTS[a0]'',
      ''[v0]concat=n=1:v=1:a=0[outv]'',
      ''[a0]concat=n=1:v=0:a=1[outa]'',
      ''[outv][outa]concat=n=1:v=1:a=1[out]'']"
proof -
  have h: "\<forall>x. CHR '';'' \<notin> set (fmt_tenths x)"
    by (simp add: fmt_tenths_no_semicolon)
  have k: "non_silent_segments [(2.0, 4.0), (10.0, 11.5)] 15.0 =
      [(0, 2.0), (4.0, 10.0), (11.5, 15.0)]"
    by (simp add: non_silent_segments_def)
  have f: "fmt_tenths 4 = ''4.0''" "fmt_tenths 10 = ''10.0''"
    by (simp_all add: fmt_tenths_def show_nat.simps)
  note t = filter_graph_deterministic [OF h,
      of "[(0, 2.0), (4.0, 10.0), (11.5, 15.0)]" "[(0, 2.0), (4.0, 10.0), (11.5, 15.0)]"
        "[(2.0, 4.0), (10.0, 11.5)]" "15.0" "4.0" "10.0"]
  from t k have a: "create_filter_complex fmt_tenths [(2.0, 4.0), (10.0, 11.5)] 15.0 =
      vp_create_filter_complex fmt_tenths [(0, 2.0), (4.0, 10.0), (11.5, 15.0)]"
    by simp
  from t have b:
    "length (graph_nodes (vp_create_filter_complex fmt_tenths [(0, 2.0), (4.0, 10.0), (11.5, 15.0)])) = 9"
    by simp
  from t k have c:
    "length (graph_nodes (create_filter_complex fmt_tenths [(2.0, 4.0), (10.0, 11.5)] 15.0)) = 9"
    by simp
  from t have d: "graph_nodes (vp_create_filter_complex fmt_tenths [(4.0, 10.0)]) =
     [''[0:v]trim=start=4.0:end=10.0,setpts=PTS-STARTPTS[v0]'',
      ''[0:a]atrim=start=4.0:end=10.0,asetpts=PTS-STARTPTS[a0]'',
      ''[v0]concat=n=1:v=1:a=0[outv]'',
      ''[a0]concat=n=1:v=0:a=1[outa]'',
      ''[outv][outa]concat=n=1:v=1:a=1[out]'']"
    by (simp add: f)
  from h a b c d show ?thesis by blast
qed

section \<open>Properties of the trace parsers\<close>

lemma remsi_scan_no_marker:
  "list_all remsi_no_marker after \<Longrightarrow> remsi_scan conv after cs segs = Inr segs"
  by (induction after arbitrary: cs segs) (auto simp: remsi_no_marker_def)

lemma remsi_scan_trailing_start:
  assumes "re_search ''silence_start: '' l = Some g" and "conv g = Some t"
    and "list_all remsi_no_marker after"
  shows "remsi_scan conv (before @ l # after) cs segs = remsi_scan conv before cs segs"
proof (induction before arbitrary: cs segs)
  case Nil
  show ?case using assms by (simp add: remsi_scan_no_marker)
next
  case (Cons a before)
  show ?case by (simp add: Cons.IH split: option.splits)
qed

lemma vp_scan_no_marker:
  "list_all vp_no_marker after \<Longrightarrow> vp_scan conv after st segs = Inr segs"
  by (induction after arbitrary: st segs) (auto simp: vp_no_marker_def)

lemma vp_scan_trailing_start:
  assumes "str_contains ''silence_start'' l" and "marker_token ''silence_start: '' l = Inr tok"
    and "conv tok = Some t" and "list_all vp_no_marker after"
  shows "vp_scan conv (before @ l # after) st segs = vp_scan conv before st segs"
proof (induction before arbitrary: st segs)
  case Nil
  show ?case using assms by (simp add: vp_scan_no_marker)
next
  case (Cons a before)
  show ?case by (simp add: Cons.IH split: option.splits sum.splits)
qed

lemmas parser_eval =
  remsi_parse_silence_output_def vp_parse_silence_output_def match_here_def marker_token_def
  digit_or_dot_def is_digit_def is_space_def py_float_def dec_value_def digit_val_def
  newline_def remsi_no_marker_def vp_no_marker_def

text \<open>
  Claim C2.  As stated the claim fails: neither parser takes the duration, and neither
  emits an interval for a start marker that no end marker follows.  What holds: for every
  trace whose last marker line is a start marker at time \<open>T\<close> (the lines after it carry no
  marker), each parser returns what it returns on the trace before that line; the
  unmatched marker adds no interval.
\<close>

theorem trailing_start_marker_dropped:
  "(split_char newline trace = split_char newline before @ l # after \<and>
    re_search ''silence_start: '' l = Some g \<and> conv g = Some T \<and>
    list_all remsi_no_marker after \<longrightarrow>
      remsi_parse_silence_output conv trace = remsi_parse_silence_output conv before) \<and>
   (split_char newline trace = split_char newline before @ l # after \<and>
    str_contains ''silence_start'' l \<and> marker_token ''silence_start: '' l = Inr tok \<and>
    conv tok = Some T \<and> list_all vp_no_marker after \<longrightarrow>
      vp_parse_silence_output conv trace = vp_parse_silence_output conv before)"
  by (simp add: remsi_parse_silence_output_def vp_parse_silence_output_def
      remsi_scan_trailing_start vp_scan_trailing_start)

theorem trailing_start_marker_dropped_witness:
  "split_char newline
     (''silence_start: 2.0'' @ [newline] @ ''silence_end: 4.0'' @ [newline] @
      ''silence_start: 58.0'' @ [newline]) =
     split_char newline (''silence_start: 2.0'' @ [newline] @ ''silence_end: 4.0'') @
     ''silence_start: 58.0'' # [''''] \<and>
   re_search ''silence_start: '' ''silence_start: 58.0'' = Some ''58.0'' \<and>
   str_contains ''silence_start'' ''silence_start: 58.0'' \<and>
   marker_token ''silence_start: '' ''silence_start: 58.0'' = Inr ''58.0'' \<and>
   py_float ''58.0'' = Some 58 \<and>
   list_all remsi_no_marker [''''] \<and> list_all vp_no_marker [''''] \<and>
   remsi_parse_silence_output py_float
     (''silence_start: 2.0'' @ [newline] @ ''silence_end: 4.0'' @ [newline] @
      ''silence_start: 58.0'' @ [newline]) = Inr [(2, 4)] \<and>
   vp_parse_silence_output py_float
     (''silence_start: 2.0'' @ [newline] @ ''silence_end: 4.0'' @ [newline] @
      ''silence_start: 58.0'' @ [newline]) = Inr [(2, 4)]"
proof -
  let ?trace = "''silence_start: 2.0'' @ [newline] @ ''silence_end: 4.0'' @ [newline] @
      ''silence_start: 58.0'' @ [newline]"
  let ?before = "''silence_start: 2.0'' @ [newline] @ ''silence_end: 4.0''"
  have sp: "split_char newline ?trace =
      split_char newline ?before @ ''silence_start: 58.0'' # ['''']"
    by (simp add: newline_def)
  have rs: "re_search ''silence_start: '' ''silence_start: 58.0'' = Some ''58.0''"
    by (simp add: parser_eval)
  have sc: "str_contains ''silence_start'' ''silence_start: 58.0''" by simp
  have mt: "marker_token ''silence_start: '' ''silence_start: 58.0'' = Inr ''58.0''"
    by (simp add: parser_eval)
  have pf: "py_float ''58.0'' = Some 58" by (simp add: parser_eval)
  have nr: "list_all remsi_no_marker ['''']" by (simp add: parser_eval)
  have nv: "list_all vp_no_marker ['''']" by (simp add: parser_eval)
  have br: "remsi_parse_silence_output py_float ?before = Inr [(2, 4)]"
    by (simp add: parser_eval)
  have bv: "vp_parse_silence_output py_float ?before = Inr [(2, 4)]"
    by (simp add: parser_eval)
  note t = trailing_start_marker_dropped [of ?trace ?before "''silence_start: 58.0''" "['''']"
      "''58.0''" py_float 58 "''58.0''"]
  from t sp rs pf nr br have r: "remsi_parse_silence_output py_float ?trace = Inr [(2, 4)]"
    by presburger
  from t sp sc mt pf nv bv have v: "vp_parse_silence_output py_float ?trace = Inr [(2, 4)]"
    by presburger
  from sp rs sc mt pf nr nv r v show ?thesis by blast
qed

text \<open>
  The claim as stated is false at the trace of its own example: both parsers return no
  interval, not \<open>(58.0, 60.0)\<close>.
\<close>

theorem trailing_start_marker_counterexample:
  "remsi_parse_silence_output py_float ''[silencedetect @ 0x55d] silence_start: 58.0'' = Inr [] \<and>
   vp_parse_silence_output py_float ''[silencedetect @ 0x55d] silence_start: 58.0'' = Inr [] \<and>
   remsi_parse_silence_output py_float ''[silencedetect @ 0x55d] silence_start: 58.0''
     \<noteq> Inr [(58, 60)] \<and>
   vp_parse_silence_output py_float ''[silencedetect @ 0x55d] silence_start: 58.0''
     \<noteq> Inr [(58, 60)]"
  by (simp add: parser_eval)

text \<open>
  Claim C9.  The parsers do not skip every malformed line.  The first parser raises
  \<open>ValueError\<close> on a marker whose timestamp is made of digits and dots but is no number
  (\<open>detect_silence\<close> then answers the empty list, losing the intervals parsed before); the
  second parser raises \<open>UnboundLocalError\<close> on an end marker with no start marker before
  it, \<open>IndexError\<close> on a marker without its colon and \<open>ValueError\<close> on a timestamp that is
  no number.
\<close>

theorem parsers_abort_on_malformed_line:
  "remsi_parse_silence_output py_float ''silence_start: 1.2.3'' = Inl ValueError \<and>
   remsi_parse_silence_output py_float
     (''silence_start: 2.0'' @ [newline] @ ''silence_end: 4.0'' @ [newline] @
      ''silence_start: 1.2.3'') = Inl ValueError \<and>
   detect_silence py_float
     (sample_world\<lparr>run_silencedetect :=
        \<lambda>_ _ _. Inr (0, ''silence_start: 2.0'' @ [newline] @ ''silence_end: 4.0'' @ [newline] @
                        ''silence_start: 1.2.3'')\<rparr>)
     ''uploads/job1/clip.mp4'' ''-50dB'' 1 = [] \<and>
   vp_parse_silence_output py_float ''silence_end: 5.0'' = Inl UnboundLocalError \<and>
   vp_parse_silence_output py_float ''silence_start'' = Inl IndexError \<and>
   vp_parse_silence_output py_float ''silence_start: abc'' = Inl ValueError"
  by (simp add: parser_eval detect_silence_def sample_world_def)

section \<open>Properties of the job lifecycle\<close>

lemma run_job_failed:
  "db jid = Some j \<Longrightarrow>
   run_job (Inl e, calls) db jid p =
     (db(jid \<mapsto> j\<lparr>status := FAILED, error_message := Some (exc_msg e)\<rparr>), calls)"
  by (simp add: run_job_def)

lemma run_job_failed_fst:
  "db jid = Some j \<Longrightarrow> fst r = Inl e \<Longrightarrow>
   fst (run_job r db jid p) =
     db(jid \<mapsto> j\<lparr>status := FAILED, error_message := Some (exc_msg e)\<rparr>)"
  by (cases r) (simp add: run_job_def)

lemma run_job_completed:
  "db jid = Some j \<Longrightarrow>
   run_job (Inr out, calls) db jid p =
     (db(jid \<mapsto> j\<lparr>status := COMPLETED,
        processed_file_url := Some (''/downloads/'' @ jid @ ''/processed_'' @ path_basename p)\<rparr>),
      calls)"
  by (simp add: run_job_def)

lemma process_with_ffmpeg_over_cap:
  "get_video_duration w p > 60 \<Longrightarrow>
   process_with_ffmpeg conv fmt w p =
     (Inl (Exc ''ValueError'' ''Free tier only supports videos under 1 minute''), [CallProbe])"
  by (simp add: process_with_ffmpeg_def)

lemma process_with_ffmpeg_within_cap:
  "get_video_duration w p \<le> 60 \<Longrightarrow>
   process_with_ffmpeg conv fmt w p =
     (if fst (process_video conv fmt w p (output_path_of p) ''-50dB'' 1)
      then Inr (output_path_of p)
      else Inl (Exc ''Exception'' ''Failed to process video with Remsi''),
      CallProbe # snd (process_video conv fmt w p (output_path_of p) ''-50dB'' 1))"
  by (auto simp add: process_with_ffmpeg_def Let_def split: prod.splits)

lemma process_video_ffprobe_fails:
  "run_ffprobe w p = Inl e \<Longrightarrow> process_video conv fmt w p out th md = (False, [CallFfprobe])"
  by (simp add: process_video_def)

lemma process_video_ffprobe_ok:
  "run_ffprobe w p = Inr D \<Longrightarrow>
   process_video conv fmt w p out th md =
     (case run_encode w p (create_filter_complex fmt (detect_silence conv w p th md) D) out of
        Inl e \<Rightarrow> False | Inr u \<Rightarrow> True,
      [CallFfprobe, CallSilencedetect,
       CallEncode (create_filter_complex fmt (detect_silence conv w p th md) D)])"
  by (simp add: process_video_def Let_def split: sum.splits)

lemma process_video_success:
  "fst (process_video conv fmt w p out th md) =
     (case run_ffprobe w p of
        Inl e \<Rightarrow> False
      | Inr D \<Rightarrow>
          (case run_encode w p (create_filter_complex fmt (detect_silence conv w p th md) D) out of
             Inl e \<Rightarrow> False
           | Inr u \<Rightarrow> True))"
  by (simp add: process_video_def Let_def split: sum.splits)

lemma process_video_calls_distinct: "distinct (snd (process_video conv fmt w p out th md))"
  by (simp add: process_video_def Let_def split: sum.splits)

lemma process_with_ffmpeg_calls_distinct: "distinct (snd (process_with_ffmpeg conv fmt w p))"
proof (cases "get_video_duration w p > 60")
  case True
  then show ?thesis by (simp add: process_with_ffmpeg_over_cap)
next
  case False
  then have "get_video_duration w p \<le> 60" by simp
  then show ?thesis
    using process_video_calls_distinct [of conv fmt w p "output_path_of p" "''-50dB''" 1]
    by (auto simp add: process_with_ffmpeg_within_cap process_video_def Let_def split: sum.splits)
qed

lemma run_job_calls: "snd (run_job r db jid p) = (if db jid = None then [] else snd r)"
  by (cases r) (auto simp: run_job_def Let_def split: option.splits sum.splits)

lemma process_with_whisper_result:
  "fst (process_with_whisper fmt w p) =
     (case (if whisper_loaded w then Inr () else load_model w) of
        Inl e \<Rightarrow> Inl e
      | Inr u \<Rightarrow>
     (case extract_audio w p (audio_path_of p) of
        Inl e \<Rightarrow> Inl e
      | Inr u \<Rightarrow>
     (case transcribe w (audio_path_of p) of
        Inl e \<Rightarrow> Inl e
      | Inr segments \<Rightarrow>
     (case (if segments \<noteq> []
            then run_encode w p (create_whisper_filter_complex fmt segments) (output_path_of p)
            else run_copy w p (output_path_of p)) of
        Inl e \<Rightarrow> Inl e
      | Inr u \<Rightarrow>
     (case remove_audio w (audio_path_of p) of
        Inl e \<Rightarrow> Inl e
      | Inr u \<Rightarrow> Inr (output_path_of p))))))"
  by (simp add: process_with_whisper_def step_then_def call_step_def Let_def
      split: sum.splits prod.splits)

lemma process_with_whisper_calls_distinct: "distinct (snd (process_with_whisper fmt w p))"
  by (simp add: process_with_whisper_def step_then_def call_step_def Let_def
      split: sum.splits prod.splits)

lemma sample_paths:
  "path_basename ''uploads/job1/clip.mp4'' = ''clip.mp4''"
  "path_dirname ''uploads/job1/clip.mp4'' = ''uploads/job1''"
  "path_join ''uploads/job1'' ''processed_clip.mp4'' = ''uploads/job1/processed_clip.mp4''"
  "path_join ''temp_processing'' ''audio_clip.mp4.wav'' = ''temp_processing/audio_clip.mp4.wav''"
  by (simp_all add: path_basename_def path_dirname_def path_join_def)

lemma sample_lookup: "sample_store ''job1'' = Some sample_job"
  by (simp add: sample_store_def)




text \<open>
  Claim C7.  As stated the claim fails: \<open>detect_silence\<close> signals no error.  What holds:
  when the tool process cannot be started \<open>detect_silence\<close> returns the empty list, and the
  graph handed to the encoder is the pass-through graph; when the process exits, whatever
  its exit code, its output is parsed (a parser exception again gives the empty list); and
  a basic-tier job within the duration cap whose second duration query and encoder succeed
  ends \<open>COMPLETED\<close> whatever the detector call did.
\<close>

theorem detector_failure_swallowed:
  "(run_silencedetect w p th md = Inl e \<longrightarrow> detect_silence conv w p th md = []) \<and>
   (run_silencedetect w p th md = Inr (rc, out) \<longrightarrow>
      detect_silence conv w p th md =
        (case remsi_parse_silence_output conv out of Inl e' \<Rightarrow> [] | Inr segs \<Rightarrow> segs)) \<and>
   (run_silencedetect w p ''-50dB'' 1 = Inl e \<longrightarrow>
      create_filter_complex fmt (detect_silence conv w p ''-50dB'' 1) D =
        ''[0:v][0:a]concat=n=1:v=1:a=1[out]'') \<and>
   (db jid = Some j \<and> get_video_duration w p \<le> 60 \<and> run_ffprobe w p = Inr D \<and>
    run_encode w p (create_filter_complex fmt (detect_silence conv w p ''-50dB'' 1) D)
      (output_path_of p) = Inr () \<longrightarrow>
      process_video_free conv fmt w db jid p =
        (db(jid \<mapsto> j\<lparr>status := COMPLETED,
           processed_file_url :=
             Some (''/downloads/'' @ jid @ ''/processed_'' @ path_basename p)\<rparr>),
         [CallProbe, CallFfprobe, CallSilencedetect,
          CallEncode (create_filter_complex fmt (detect_silence conv w p ''-50dB'' 1) D)]))"
proof (intro conjI impI)
  assume "run_silencedetect w p th md = Inl e"
  then show "detect_silence conv w p th md = []"
    by (simp add: detect_silence_def)
next
  assume "run_silencedetect w p th md = Inr (rc, out)"
  then show "detect_silence conv w p th md =
      (case remsi_parse_silence_output conv out of Inl e' \<Rightarrow> [] | Inr segs \<Rightarrow> segs)"
    by (simp add: detect_silence_def)
next
  assume "run_silencedetect w p ''-50dB'' 1 = Inl e"
  then show "create_filter_complex fmt (detect_silence conv w p ''-50dB'' 1) D =
      ''[0:v][0:a]concat=n=1:v=1:a=1[out]''"
    by (simp add: detect_silence_def create_filter_complex_def)
next
  assume a: "db jid = Some j \<and> get_video_duration w p \<le> 60 \<and> run_ffprobe w p = Inr D \<and>
    run_encode w p (create_filter_complex fmt (detect_silence conv w p ''-50dB'' 1) D)
      (output_path_of p) = Inr ()"
  then have pv: "process_video conv fmt w p (output_path_of p) ''-50dB'' 1 =
      (True, [CallFfprobe, CallSilencedetect,
          CallEncode (create_filter_complex fmt (detect_silence conv w p ''-50dB'' 1) D)])"
    by (simp add: process_video_ffprobe_ok)
  show "process_video_free conv fmt w db jid p =
        (db(jid \<mapsto> j\<lparr>status := COMPLETED,
           processed_file_url :=
             Some (''/downloads/'' @ jid @ ''/processed_'' @ path_basename p)\<rparr>),
         [CallProbe, CallFfprobe, CallSilencedetect,
          CallEncode (create_filter_complex fmt (detect_silence conv w p ''-50dB'' 1) D)])"
  proof -
    from a have le: "get_video_duration w p \<le> 60" and job: "db jid = Some j" by simp_all
    have pw: "process_with_ffmpeg conv fmt w p =
        (Inr (output_path_of p),
         [CallProbe, CallFfprobe, CallSilencedetect,
          CallEncode (create_filter_complex fmt (detect_silence conv w p ''-50dB'' 1) D)])"
      by (simp only: process_with_ffmpeg_within_cap [OF le] pv fst_conv snd_conv if_True)
    show ?thesis
      by (simp only: process_video_free_def pw
          run_job_completed [where db = db and jid = jid and j = j, OF job])
  qed
qed

theorem detector_failure_swallowed_witness:
  "run_silencedetect
     (sample_world\<lparr>run_silencedetect :=
        \<lambda>_ _ _. Inl (Exc ''FileNotFoundError'' ''[Errno 2] No such file or directory: ffmpeg'')\<rparr>)
     ''uploads/job1/clip.mp4'' ''-50dB'' 1 =
     Inl (Exc ''FileNotFoundError'' ''[Errno 2] No such file or directory: ffmpeg'') \<and>
   detect_silence py_float
     (sample_world\<lparr>run_silencedetect :=
        \<lambda>_ _ _. Inl (Exc ''FileNotFoundError'' ''[Errno 2] No such file or directory: ffmpeg'')\<rparr>)
     ''uploads/job1/clip.mp4'' ''-50dB'' 1 = [] \<and>
   process_video_free py_float fmt_tenths
     (sample_world\<lparr>run_silencedetect :=
        \<lambda>_ _ _. Inl (Exc ''FileNotFoundError'' ''[Errno 2] No such file or directory: ffmpeg'')\<rparr>)
     sample_store ''job1'' ''uploads/job1/clip.mp4'' =
     (sample_store(''job1'' \<mapsto> sample_job\<lparr>status := COMPLETED,
        processed_file_url := Some ''/downloads/job1/processed_clip.mp4''\<rparr>),
      [CallProbe, CallFfprobe, CallSilencedetect,
       CallEncode ''[0:v][0:a]concat=n=1:v=1:a=1[out]''])"
proof -
  let ?e = "Exc ''FileNotFoundError'' ''[Errno 2] No such file or directory: ffmpeg''"
  let ?w = "sample_world\<lparr>run_silencedetect := \<lambda>_ _ _. Inl ?e\<rparr>"
  let ?p = "''uploads/job1/clip.mp4''"
  have rs: "run_silencedetect ?w ?p ''-50dB'' 1 = Inl ?e" by simp
  have d: "get_video_duration ?w ?p \<le> 60"
    by (simp add: get_video_duration_def sample_world_def)
  have f: "run_ffprobe ?w ?p = Inr 30" by (simp add: sample_world_def)
  have en: "run_encode ?w ?p
      (create_filter_complex fmt_tenths (detect_silence py_float ?w ?p ''-50dB'' 1) 30)
      (output_path_of ?p) = Inr ()"
    by (simp add: sample_world_def)
  note t = detector_failure_swallowed [where w = "?w" and p = "?p" and th = "''-50dB''"
      and md = 1 and e = "?e" and conv = py_float and fmt = fmt_tenths and D = 30
      and db = sample_store and jid = "''job1''" and j = sample_job]
  from t rs have a: "detect_silence py_float ?w ?p ''-50dB'' 1 = []" by blast
  from t rs have g: "create_filter_complex fmt_tenths (detect_silence py_float ?w ?p ''-50dB'' 1) 30 =
      ''[0:v][0:a]concat=n=1:v=1:a=1[out]''" by blast
  from t sample_lookup d f en
  have b: "process_video_free py_float fmt_tenths ?w sample_store ''job1'' ?p =
      (sample_store(''job1'' \<mapsto> sample_job\<lparr>status := COMPLETED,
         processed_file_url :=
           Some (''/downloads/'' @ ''job1'' @ ''/processed_'' @ path_basename ?p)\<rparr>),
       [CallProbe, CallFfprobe, CallSilencedetect,
        CallEncode (create_filter_complex fmt_tenths (detect_silence py_float ?w ?p ''-50dB'' 1) 30)])"
    by blast
  from rs a b g show ?thesis by (simp add: sample_paths)
qed

text \<open>
  The claim as stated is false when the detector process cannot be started and when it
  exits with a non-zero code: with the other calls succeeding, the job ends \<open>COMPLETED\<close>.
\<close>

theorem detector_failure_counterexample:
  "fst (process_video_free py_float fmt_tenths
      (sample_world\<lparr>run_silencedetect :=
         \<lambda>_ _ _. Inl (Exc ''FileNotFoundError'' ''[Errno 2] No such file or directory: ffmpeg'')\<rparr>)
      sample_store ''job1'' ''uploads/job1/clip.mp4'') ''job1'' =
     Some (sample_job\<lparr>status := COMPLETED,
             processed_file_url := Some ''/downloads/job1/processed_clip.mp4''\<rparr>) \<and>
   fst (process_video_free py_float fmt_tenths
      (sample_world\<lparr>run_silencedetect :=
         \<lambda>_ _ _. Inr (1, ''Invalid data found when processing input'')\<rparr>)
      sample_store ''job1'' ''uploads/job1/clip.mp4'') ''job1'' =
     Some (sample_job\<lparr>status := COMPLETED,
             processed_file_url := Some ''/downloads/job1/processed_clip.mp4''\<rparr>)"
proof -
  let ?p = "''uploads/job1/clip.mp4''"
  have "\<And>r. fst (process_video_free py_float fmt_tenths
      (sample_world\<lparr>run_silencedetect := r\<rparr>) sample_store ''job1'' ?p) ''job1'' =
     Some (sample_job\<lparr>status := COMPLETED,
             processed_file_url := Some ''/downloads/job1/processed_clip.mp4''\<rparr>)"
  proof -
    fix r
    let ?w = "sample_world\<lparr>run_silencedetect := r\<rparr>"
    have d: "get_video_duration ?w ?p \<le> 60"
      by (simp add: get_video_duration_def sample_world_def)
    have ok: "fst (process_video py_float fmt_tenths ?w ?p (output_path_of ?p) ''-50dB'' 1)"
      by (simp add: process_video_success sample_world_def)
    show "fst (process_video_free py_float fmt_tenths ?w sample_store ''job1'' ?p) ''job1'' =
       Some (sample_job\<lparr>status := COMPLETED,
               processed_file_url := Some ''/downloads/job1/processed_clip.mp4''\<rparr>)"
      using d ok
      by (simp add: process_video_free_def process_with_ffmpeg_within_cap
          run_job_completed [where db = sample_store and j = sample_job, OF sample_lookup]
          sample_paths)
  qed
  then show ?thesis by blast
qed

text \<open>
  Claim C8.  As stated the claim fails for the basic tier: a failure inside
  \<open>RemsiProcessor.process_video\<close> is caught there and answered \<open>False\<close>, and the job
  record gets a fixed message, not the message of the originating error.  What holds, for a
  job in the store: whatever exception leaves the tier's processing function, the job ends
  \<open>FAILED\<close> with that exception's message; in the premium tier that exception is the
  exception of the first failing step, unchanged; in the basic tier, within the duration
  cap, a failed duration query or encoder run gives the exception with the message
  \<open>Failed to process video with Remsi\<close>; and no external call is made twice in a run.
\<close>

theorem stage_failure_recorded:
  assumes "db jid = Some j"
  shows "(fst (process_with_whisper fmt w p) = Inl e \<longrightarrow>
            fst (process_video_premium fmt w db jid p) =
              db(jid \<mapsto> j\<lparr>status := FAILED, error_message := Some (exc_msg e)\<rparr>)) \<and>
         fst (process_with_whisper fmt w p) =
           (case (if whisper_loaded w then Inr () else load_model w) of
              Inl e \<Rightarrow> Inl e
            | Inr u \<Rightarrow>
           (case extract_audio w p (audio_path_of p) of
              Inl e \<Rightarrow> Inl e
            | Inr u \<Rightarrow>
           (case transcribe w (audio_path_of p) of
              Inl e \<Rightarrow> Inl e
            | Inr segments \<Rightarrow>
           (case (if segments \<noteq> []
                  then run_encode w p (create_whisper_filter_complex fmt segments)
                         (output_path_of p)
                  else run_copy w p (output_path_of p)) of
              Inl e \<Rightarrow> Inl e
            | Inr u \<Rightarrow>
           (case remove_audio w (audio_path_of p) of
              Inl e \<Rightarrow> Inl e
            | Inr u \<Rightarrow> Inr (output_path_of p)))))) \<and>
         (fst (process_with_ffmpeg conv fmt w p) = Inl e \<longrightarrow>
            fst (process_video_free conv fmt w db jid p) =
              db(jid \<mapsto> j\<lparr>status := FAILED, error_message := Some (exc_msg e)\<rparr>)) \<and>
         (get_video_duration w p \<le> 60 \<and>
          \<not> fst (process_video conv fmt w p (output_path_of p) ''-50dB'' 1) \<longrightarrow>
            fst (process_with_ffmpeg conv fmt w p) =
              Inl (Exc ''Exception'' ''Failed to process video with Remsi'')) \<and>
         fst (process_video conv fmt w p out th md) =
           (case run_ffprobe w p of
              Inl e \<Rightarrow> False
            | Inr D \<Rightarrow>
                (case run_encode w p
                        (create_filter_complex fmt (detect_silence conv w p th md) D) out of
                   Inl e \<Rightarrow> False
                 | Inr u \<Rightarrow> True)) \<and>
         distinct (snd (process_video_free conv fmt w db jid p)) \<and>
         distinct (snd (process_video_premium fmt w db jid p))"
proof (intro conjI impI)
  assume "fst (process_with_whisper fmt w p) = Inl e"
  then show "fst (process_video_premium fmt w db jid p) =
      db(jid \<mapsto> j\<lparr>status := FAILED, error_message := Some (exc_msg e)\<rparr>)"
    unfolding process_video_premium_def
    by (rule run_job_failed_fst [where db = db and jid = jid and j = j, OF assms])
next
  show "fst (process_with_whisper fmt w p) =
           (case (if whisper_loaded w then Inr () else load_model w) of
              Inl e \<Rightarrow> Inl e
            | Inr u \<Rightarrow>
           (case extract_audio w p (audio_path_of p) of
              Inl e \<Rightarrow> Inl e
            | Inr u \<Rightarrow>
           (case transcribe w (audio_path_of p) of
              Inl e \<Rightarrow> Inl e
            | Inr segments \<Rightarrow>
           (case (if segments \<noteq> []
                  then run_encode w p (create_whisper_filter_complex fmt segments)
                         (output_path_of p)
                  else run_copy w p (output_path_of p)) of
              Inl e \<Rightarrow> Inl e
            | Inr u \<Rightarrow>
           (case remove_audio w (audio_path_of p) of
              Inl e \<Rightarrow> Inl e
            | Inr u \<Rightarrow> Inr (output_path_of p))))))"
    by (rule process_with_whisper_result)
next
  assume "fst (process_with_ffmpeg conv fmt w p) = Inl e"
  then show "fst (process_video_free conv fmt w db jid p) =
      db(jid \<mapsto> j\<lparr>status := FAILED, error_message := Some (exc_msg e)\<rparr>)"
    unfolding process_video_free_def
    by (rule run_job_failed_fst [where db = db and jid = jid and j = j, OF assms])
next
  assume "get_video_duration w p \<le> 60 \<and>
          \<not> fst (process_video conv fmt w p (output_path_of p) ''-50dB'' 1)"
  then show "fst (process_with_ffmpeg conv fmt w p) =
      Inl (Exc ''Exception'' ''Failed to process video with Remsi'')"
    by (simp add: process_with_ffmpeg_within_cap)
next
  show "fst (process_video conv fmt w p out th md) =
           (case run_ffprobe w p of
              Inl e \<Rightarrow> False
            | Inr D \<Rightarrow>
                (case run_encode w p
                        (create_filter_complex fmt (detect_silence conv w p th md) D) out of
                   Inl e \<Rightarrow> False
                 | Inr u \<Rightarrow> True))"
    by (rule process_video_success)
next
  show "distinct (snd (process_video_free conv fmt w db jid p))"
    using process_with_ffmpeg_calls_distinct [of conv fmt w p]
      run_job_calls [of "process_with_ffmpeg conv fmt w p" db jid p]
    by (simp add: process_video_free_def)
next
  show "distinct (snd (process_video_premium fmt w db jid p))"
    using process_with_whisper_calls_distinct [of fmt w p]
      run_job_calls [of "process_with_whisper fmt w p" db jid p]
    by (simp add: process_video_premium_def)
qed

theorem stage_failure_recorded_witness:
  "sample_store ''job1'' = Some sample_job \<and>
   fst (process_with_whisper fmt_tenths
      (sample_world\<lparr>transcribe := \<lambda>_. Inl (Exc ''RuntimeError'' ''CUDA out of memory'')\<rparr>)
      ''uploads/job1/clip.mp4'') = Inl (Exc ''RuntimeError'' ''CUDA out of memory'') \<and>
   fst (process_video_premium fmt_tenths
      (sample_world\<lparr>transcribe := \<lambda>_. Inl (Exc ''RuntimeError'' ''CUDA out of memory'')\<rparr>)
      sample_store ''job1'' ''uploads/job1/clip.mp4'') =
     sample_store(''job1'' \<mapsto>
       sample_job\<lparr>status := FAILED, error_message := Some ''CUDA out of memory''\<rparr>) \<and>
   get_video_duration
      (sample_world\<lparr>run_encode :=
         \<lambda>_ _ _. Inl (Exc ''CalledProcessError'' ''Command returned non-zero exit status 1.'')\<rparr>)
      ''uploads/job1/clip.mp4'' \<le> 60 \<and>
   \<not> fst (process_video py_float fmt_tenths
      (sample_world\<lparr>run_encode :=
         \<lambda>_ _ _. Inl (Exc ''CalledProcessError'' ''Command returned non-zero exit status 1.'')\<rparr>)
      ''uploads/job1/clip.mp4'' (output_path_of ''uploads/job1/clip.mp4'') ''-50dB'' 1) \<and>
   fst (process_video_free py_float fmt_tenths
      (sample_world\<lparr>run_encode :=
         \<lambda>_ _ _. Inl (Exc ''CalledProcessError'' ''Command returned non-zero exit status 1.'')\<rparr>)
      sample_store ''job1'' ''uploads/job1/clip.mp4'') =
     sample_store(''job1'' \<mapsto>
       sample_job\<lparr>status := FAILED,
         error_message := Some ''Failed to process video with Remsi''\<rparr>)"
proof -
  let ?p = "''uploads/job1/clip.mp4''"
  let ?wt = "sample_world\<lparr>transcribe := \<lambda>_. Inl (Exc ''RuntimeError'' ''CUDA out of memory'')\<rparr>"
  let ?we = "sample_world\<lparr>run_encode :=
         \<lambda>_ _ _. Inl (Exc ''CalledProcessError'' ''Command returned non-zero exit status 1.'')\<rparr>"
  note tt = stage_failure_recorded [where db = sample_store and jid = "''job1''"
      and j = sample_job and w = "?wt" and p = "?p" and fmt = fmt_tenths
      and e = "Exc ''RuntimeError'' ''CUDA out of memory''" and conv = py_float
      and out = "output_path_of ?p" and th = "''-50dB''" and md = 1, OF sample_lookup]
  note te = stage_failure_recorded [where db = sample_store and jid = "''job1''"
      and j = sample_job and w = "?we" and p = "?p" and fmt = fmt_tenths
      and e = "Exc ''Exception'' ''Failed to process video with Remsi''" and conv = py_float
      and out = "output_path_of ?p" and th = "''-50dB''" and md = 1, OF sample_lookup]
  from tt have w1: "fst (process_with_whisper fmt_tenths ?wt ?p) =
      Inl (Exc ''RuntimeError'' ''CUDA out of memory'')"
    by (simp add: sample_world_def)
  with tt have w2: "fst (process_video_premium fmt_tenths ?wt sample_store ''job1'' ?p) =
      sample_store(''job1'' \<mapsto>
        sample_job\<lparr>status := FAILED, error_message := Some ''CUDA out of memory''\<rparr>)"
    by simp
  have d: "get_video_duration ?we ?p \<le> 60"
    by (simp add: get_video_duration_def sample_world_def)
  from te have nf: "\<not> fst (process_video py_float fmt_tenths ?we ?p (output_path_of ?p) ''-50dB'' 1)"
    by (simp add: sample_world_def)
  from te d nf have "fst (process_with_ffmpeg py_float fmt_tenths ?we ?p) =
      Inl (Exc ''Exception'' ''Failed to process video with Remsi'')"
    by blast
  with te have b: "fst (process_video_free py_float fmt_tenths ?we sample_store ''job1'' ?p) =
      sample_store(''job1'' \<mapsto>
        sample_job\<lparr>status := FAILED,
          error_message := Some ''Failed to process video with Remsi''\<rparr>)"
    by simp
  from sample_lookup w1 w2 d nf b show ?thesis by blast
qed

text \<open>
  The claim as stated is false for a basic-tier job whose encoder exits non-zero: the job
  record carries the fixed message, not the message of the encoder's error.
\<close>

theorem stage_failure_counterexample:
  "fst (process_video_free py_float fmt_tenths
      (sample_world\<lparr>run_encode :=
         \<lambda>_ _ _. Inl (Exc ''CalledProcessError'' ''Command returned non-zero exit status 1.'')\<rparr>)
      sample_store ''job1'' ''uploads/job1/clip.mp4'') ''job1'' =
     Some (sample_job\<lparr>status := FAILED,
             error_message := Some ''Failed to process video with Remsi''\<rparr>) \<and>
   Some ''Failed to process video with Remsi'' \<noteq>
     Some (exc_msg (Exc ''CalledProcessError'' ''Command returned non-zero exit status 1.''))"
proof -
  let ?p = "''uploads/job1/clip.mp4''"
  let ?we = "sample_world\<lparr>run_encode :=
         \<lambda>_ _ _. Inl (Exc ''CalledProcessError'' ''Command returned non-zero exit status 1.'')\<rparr>"
  have d: "get_video_duration ?we ?p \<le> 60"
    by (simp add: get_video_duration_def sample_world_def)
  have nf: "\<not> fst (process_video py_float fmt_tenths ?we ?p (output_path_of ?p) ''-50dB'' 1)"
    by (simp add: process_video_success sample_world_def)
  have "fst (process_with_ffmpeg py_float fmt_tenths ?we ?p) =
      Inl (Exc ''Exception'' ''Failed to process video with Remsi'')"
    using nf by (simp add: process_with_ffmpeg_within_cap [OF d])
  then have "fst (process_video_free py_float fmt_tenths ?we sample_store ''job1'' ?p) =
      sample_store(''job1'' \<mapsto>
        sample_job\<lparr>status := FAILED,
          error_message := Some (exc_msg (Exc ''Exception'' ''Failed to process video with Remsi''))\<rparr>)"
    unfolding process_video_free_def
    by (rule run_job_failed_fst [where db = sample_store and j = sample_job, OF sample_lookup])
  then show ?thesis by simp
qed

text \<open>
  Claim C10.  As stated the claim fails in its last part: after the tier check the job
  does not always reach detection.  What holds, for a job in the store whose duration
  probe raises: \<open>get_video_duration\<close> returns 0, the tier check lets the job through, and
  the run enters \<open>RemsiProcessor.process_video\<close>, which asks for the duration again by a
  second query; when that query gives a number the detector is invoked, and when it
  raises the job ends \<open>FAILED\<close> with the message \<open>Failed to process video with Remsi\<close> and no
  detector call.
\<close>

theorem probe_failure_passes_tier_check:
  assumes "db jid = Some j" and "ffmpeg_probe w p = Inl e"
  shows "get_video_duration w p = 0 \<and>
         process_with_ffmpeg conv fmt w p =
           (if fst (process_video conv fmt w p (output_path_of p) ''-50dB'' 1)
            then Inr (output_path_of p)
            else Inl (Exc ''Exception'' ''Failed to process video with Remsi''),
            CallProbe # snd (process_video conv fmt w p (output_path_of p) ''-50dB'' 1)) \<and>
         (run_ffprobe w p = Inr D \<longrightarrow>
            snd (process_video_free conv fmt w db jid p) =
              [CallProbe, CallFfprobe, CallSilencedetect,
               CallEncode (create_filter_complex fmt (detect_silence conv w p ''-50dB'' 1) D)]) \<and>
         (run_ffprobe w p = Inl e' \<longrightarrow>
            process_video_free conv fmt w db jid p =
              (db(jid \<mapsto> j\<lparr>status := FAILED,
                 error_message := Some ''Failed to process video with Remsi''\<rparr>),
               [CallProbe, CallFfprobe]))"
proof -
  from assms(2) have z: "get_video_duration w p = 0"
    by (simp add: get_video_duration_def)
  then have le: "get_video_duration w p \<le> 60" by simp
  note pw = process_with_ffmpeg_within_cap [OF le, of conv fmt]
  have c: "run_ffprobe w p = Inr D \<longrightarrow>
      snd (process_video_free conv fmt w db jid p) =
        [CallProbe, CallFfprobe, CallSilencedetect,
         CallEncode (create_filter_complex fmt (detect_silence conv w p ''-50dB'' 1) D)]"
  proof
    assume f: "run_ffprobe w p = Inr D"
    have "snd (process_with_ffmpeg conv fmt w p) =
        [CallProbe, CallFfprobe, CallSilencedetect,
         CallEncode (create_filter_complex fmt (detect_silence conv w p ''-50dB'' 1) D)]"
      by (simp only: pw process_video_ffprobe_ok [OF f] snd_conv)
    then show "snd (process_video_free conv fmt w db jid p) =
        [CallProbe, CallFfprobe, CallSilencedetect,
         CallEncode (create_filter_complex fmt (detect_silence conv w p ''-50dB'' 1) D)]"
      using assms(1)
        run_job_calls [of "process_with_ffmpeg conv fmt w p" db jid p]
      by (simp add: process_video_free_def)
  qed
  have d: "run_ffprobe w p = Inl e' \<longrightarrow>
      process_video_free conv fmt w db jid p =
        (db(jid \<mapsto> j\<lparr>status := FAILED,
           error_message := Some ''Failed to process video with Remsi''\<rparr>),
         [CallProbe, CallFfprobe])"
  proof
    assume f: "run_ffprobe w p = Inl e'"
    have "process_with_ffmpeg conv fmt w p =
        (Inl (Exc ''Exception'' ''Failed to process video with Remsi''), [CallProbe, CallFfprobe])"
      by (simp only: pw process_video_ffprobe_fails [OF f] fst_conv snd_conv if_False)
    then show "process_video_free conv fmt w db jid p =
        (db(jid \<mapsto> j\<lparr>status := FAILED,
           error_message := Some ''Failed to process video with Remsi''\<rparr>),
         [CallProbe, CallFfprobe])"
      using run_job_failed [where db = db and jid = jid and j = j, OF assms(1)]
      by (simp add: process_video_free_def)
  qed
  from z pw c d show ?thesis by blast
qed

lemma sample_detect_silence:
  "detect_silence py_float (sample_world\<lparr>ffmpeg_probe := q\<rparr>) p ''-50dB'' 1 = [(2, 4)]"
  by (simp add: detect_silence_def sample_world_def parser_eval)

lemma sample_graph:
  "create_filter_complex fmt_tenths [(2, 4)] 30 =
     ''[0:v]trim=start=0.0:end=2.0,setpts=PTS-STARTPTS[v0];[0:a]atrim=start=0.0:end=2.0,asetpts=PTS-STARTPTS[a0];[0:v]trim=start=4.0:end=30.0,setpts=PTS-STARTPTS[v1];[0:a]atrim=start=4.0:end=30.0,asetpts=PTS-STARTPTS[a1];[v0][v1]concat=n=2:v=1:a=0[outv];[a0][a1]concat=n=2:v=0:a=1[outa];[outv][outa]concat=n=1:v=1:a=1[out]''"
proof -
  have k: "non_silent_segments [(2, 4)] 30 = [(0, 2), (4, 30)]"
    by (simp add: non_silent_segments_def)
  have f: "fmt_tenths 0 = ''0.0''" "fmt_tenths 2 = ''2.0''" "fmt_tenths 4 = ''4.0''"
    "fmt_tenths 30 = ''30.0''"
    by (simp_all add: fmt_tenths_def show_nat.simps)
  have u: "[0..<2] = [0, Suc 0]" by (simp add: upt_rec)
  have s2: "show_nat (Suc (Suc 0)) = ''2''" by (subst show_nat.simps, simp)
  show ?thesis
    by (simp add: create_filter_complex_def k segment_filters_def stream_inputs_def f u
        show_nat_small s2)
qed

theorem probe_failure_passes_tier_check_witness:
  "sample_store ''job1'' = Some sample_job \<and>
   ffmpeg_probe (sample_world\<lparr>ffmpeg_probe := \<lambda>_. Inl (Exc ''KeyError'' ''duration'')\<rparr>)
     ''uploads/job1/clip.mp4'' = Inl (Exc ''KeyError'' ''duration'') \<and>
   run_ffprobe (sample_world\<lparr>ffmpeg_probe := \<lambda>_. Inl (Exc ''KeyError'' ''duration'')\<rparr>)
     ''uploads/job1/clip.mp4'' = Inr 30 \<and>
   get_video_duration (sample_world\<lparr>ffmpeg_probe := \<lambda>_. Inl (Exc ''KeyError'' ''duration'')\<rparr>)
     ''uploads/job1/clip.mp4'' = 0 \<and>
   snd (process_video_free py_float fmt_tenths
     (sample_world\<lparr>ffmpeg_probe := \<lambda>_. Inl (Exc ''KeyError'' ''duration'')\<rparr>)
     sample_store ''job1'' ''uploads/job1/clip.mp4'') =
     [CallProbe, CallFfprobe, CallSilencedetect,
      CallEncode ''[0:v]trim=start=0.0:end=2.0,setpts=PTS-STARTPTS[v0];[0:a]atrim=start=0.0:end=2.0,asetpts=PTS-STARTPTS[a0];[0:v]trim=start=4.0:end=30.0,setpts=PTS-STARTPTS[v1];[0:a]atrim=start=4.0:end=30.0,asetpts=PTS-STARTPTS[a1];[v0][v1]concat=n=2:v=1:a=0[outv];[a0][a1]concat=n=2:v=0:a=1[outa];[outv][outa]concat=n=1:v=1:a=1[out]'']"
proof -
  let ?p = "''uploads/job1/clip.mp4''"
  let ?w = "sample_world\<lparr>ffmpeg_probe := \<lambda>_. Inl (Exc ''KeyError'' ''duration'')\<rparr>"
  have pr: "ffmpeg_probe ?w ?p = Inl (Exc ''KeyError'' ''duration'')" by simp
  have f: "run_ffprobe ?w ?p = Inr 30" by (simp add: sample_world_def)
  note t = probe_failure_passes_tier_check [where db = sample_store and jid = "''job1''"
      and j = sample_job and w = "?w" and p = "?p" and e = "Exc ''KeyError'' ''duration''"
      and conv = py_float and fmt = fmt_tenths and D = 30, OF sample_lookup pr]
  from t have z: "get_video_duration ?w ?p = 0" by blast
  from t f have "snd (process_video_free py_float fmt_tenths ?w sample_store ''job1'' ?p) =
      [CallProbe, CallFfprobe, CallSilencedetect,
       CallEncode (create_filter_complex fmt_tenths
         (detect_silence py_float ?w ?p ''-50dB'' 1) 30)]"
    by blast
  then have c: "snd (process_video_free py_float fmt_tenths ?w sample_store ''job1'' ?p) =
     [CallProbe, CallFfprobe, CallSilencedetect,
      CallEncode ''[0:v]trim=start=0.0:end=2.0,setpts=PTS-STARTPTS[v0];[0:a]atrim=start=0.0:end=2.0,asetpts=PTS-STARTPTS[a0];[0:v]trim=start=4.0:end=30.0,setpts=PTS-STARTPTS[v1];[0:a]atrim=start=4.0:end=30.0,asetpts=PTS-STARTPTS[a1];[v0][v1]concat=n=2:v=1:a=0[outv];[a0][a1]concat=n=2:v=0:a=1[outa];[outv][outa]concat=n=1:v=1:a=1[out]'']"
    by (simp only: sample_detect_silence sample_graph)
  from sample_lookup pr f z c show ?thesis by blast
qed

text \<open>
  The claim as stated is false when the second duration query fails as well: the job
  passes the tier check, fails before detection, and no detector call is made.
\<close>

theorem probe_failure_counterexample:
  "get_video_duration
     (sample_world\<lparr>ffmpeg_probe := \<lambda>_. Inl (Exc ''Error'' ''ffprobe error''),
        run_ffprobe := \<lambda>_. Inl (Exc ''ValueError'' ''could not convert string to float'')\<rparr>)
     ''uploads/job1/clip.mp4'' = 0 \<and>
   process_video_free py_float fmt_tenths
     (sample_world\<lparr>ffmpeg_probe := \<lambda>_. Inl (Exc ''Error'' ''ffprobe error''),
        run_ffprobe := \<lambda>_. Inl (Exc ''ValueError'' ''could not convert string to float'')\<rparr>)
     sample_store ''job1'' ''uploads/job1/clip.mp4'' =
     (sample_store(''job1'' \<mapsto> sample_job\<lparr>status := FAILED,
        error_message := Some ''Failed to process video with Remsi''\<rparr>),
      [CallProbe, CallFfprobe]) \<and>
   CallSilencedetect \<notin> set (snd (process_video_free py_float fmt_tenths
     (sample_world\<lparr>ffmpeg_probe := \<lambda>_. Inl (Exc ''Error'' ''ffprobe error''),
        run_ffprobe := \<lambda>_. Inl (Exc ''ValueError'' ''could not convert string to float'')\<rparr>)
     sample_store ''job1'' ''uploads/job1/clip.mp4''))"
proof -
  let ?p = "''uploads/job1/clip.mp4''"
  let ?w = "sample_world\<lparr>ffmpeg_probe := \<lambda>_. Inl (Exc ''Error'' ''ffprobe error''),
        run_ffprobe := \<lambda>_. Inl (Exc ''ValueError'' ''could not convert string to float'')\<rparr>"
  have z: "get_video_duration ?w ?p = 0" by (simp add: get_video_duration_def)
  then have le: "get_video_duration ?w ?p \<le> 60" by simp
  have f: "run_ffprobe ?w ?p = Inl (Exc ''ValueError'' ''could not convert string to float'')"
    by simp
  have "process_with_ffmpeg py_float fmt_tenths ?w ?p =
      (Inl (Exc ''Exception'' ''Failed to process video with Remsi''), [CallProbe, CallFfprobe])"
    by (simp only: process_with_ffmpeg_within_cap [OF le] process_video_ffprobe_fails [OF f]
        fst_conv snd_conv if_False)
  then have r: "process_video_free py_float fmt_tenths ?w sample_store ''job1'' ?p =
     (sample_store(''job1'' \<mapsto> sample_job\<lparr>status := FAILED,
        error_message := Some ''Failed to process video with Remsi''\<rparr>),
      [CallProbe, CallFfprobe])"
    using run_job_failed [where db = sample_store and jid = "''job1''" and j = sample_job,
        OF sample_lookup]
    by (simp add: process_video_free_def)
  from z r show ?thesis by simp
qed

end
